theory Spec2Isabelle
  imports Complex_Main "HOL-Library.Sublist"
begin

section \<open>JavaScript strings\<close>

text \<open>
  A JavaScript string is modelled by the bytes of its UTF-8 encoding, a \<^typ>\<open>string\<close>.
  All keywords, patterns and labels of the program are ASCII, and an ASCII byte never
  occurs inside the encoding of another character, so searching for them byte by byte
  finds the same occurrences as the program does.  Numbers are integers, which is what
  \<open>parseInt\<close> and the index arithmetic of the program compute below \<open>2^53\<close>.
\<close>

definition toLowerChar :: "char \<Rightarrow> char" where
  "toLowerChar c =
     (case map_of (zip ''ABCDEFGHIJKLMNOPQRSTUVWXYZ'' ''abcdefghijklmnopqrstuvwxyz'') c of
        Some l \<Rightarrow> l
      | None \<Rightarrow> c)"

definition toUpperChar :: "char \<Rightarrow> char" where
  "toUpperChar c =
     (case map_of (zip ''abcdefghijklmnopqrstuvwxyz'' ''ABCDEFGHIJKLMNOPQRSTUVWXYZ'') c of
        Some u \<Rightarrow> u
      | None \<Rightarrow> c)"

text \<open>
  \<open>s.toLowerCase()\<close>.  The ASCII capital letters become small letters.  Two characters
  outside ASCII have a lower case with an ASCII letter in it: the Kelvin sign U+212A
  (bytes E2 84 AA) becomes \<open>k\<close>, and the capital I with dot above U+0130 (bytes C4 B0)
  becomes \<open>i\<close> followed by the combining dot above U+0307 (bytes CC 87).  Every other
  character outside ASCII keeps its bytes here: its lower case has no ASCII character in
  it, so the ASCII characters of the result and what stands between them are those of
  the program's string, and these are all that the program's searches for ASCII keywords
  read.
\<close>

fun toLowerCase :: "string \<Rightarrow> string" where
  "toLowerCase [] = []"
| "toLowerCase (c # cs) =
     (if c = CHR 0xE2 \<and> take 2 cs = [CHR 0x84, CHR 0xAA]
      then CHR ''k'' # toLowerCase (drop 2 cs)
      else if c = CHR 0xC4 \<and> take 1 cs = [CHR 0xB0]
      then CHR ''i'' # CHR 0xCC # CHR 0x87 # toLowerCase (drop 1 cs)
      else toLowerChar c # toLowerCase cs)"

declare toLowerCase.simps [simp del]

text \<open>
  \<open>s.toUpperCase()\<close> on the ASCII letters.  The program applies it to the difficulty tier
  and to the option letters.  Characters outside ASCII are left as they are here, which is
  not JavaScript's upper case for them; the properties below apply it to ASCII text.
\<close>

definition toUpperCase :: "string \<Rightarrow> string" where
  "toUpperCase s = map toUpperChar s"

text \<open>\<open>s.startsWith(k)\<close> and \<open>s.includes(k)\<close>: the search tries every position from the left.\<close>

fun startsWith :: "string \<Rightarrow> string \<Rightarrow> bool" where
  "startsWith s [] = True"
| "startsWith [] (k # ks) = False"
| "startsWith (c # cs) (k # ks) = (if c = k then startsWith cs ks else False)"

text \<open>
  A literal of a regular expression with the flag \<open>i\<close>, matched at the head of a string;
  the literal is given in lower case.
\<close>

fun startsWithCI :: "string \<Rightarrow> string \<Rightarrow> bool" where
  "startsWithCI s [] = True"
| "startsWithCI [] (k # ks) = False"
| "startsWithCI (c # cs) (k # ks) = (if toLowerChar c = k then startsWithCI cs ks else False)"

fun js_includes :: "string \<Rightarrow> string \<Rightarrow> bool" where
  "js_includes [] k = startsWith [] k"
| "js_includes (c # cs) k = (startsWith (c # cs) k \<or> js_includes cs k)"

text \<open>\<open>a || b\<close> on strings: the empty string is falsy.\<close>

definition or_else :: "string \<Rightarrow> string \<Rightarrow> string" where
  "or_else a b = (if a = [] then b else a)"

text \<open>\<open>v || d\<close> where \<open>v\<close> may be undefined.\<close>

definition or_default :: "string option \<Rightarrow> string \<Rightarrow> string" where
  "or_default v d = (case v of None \<Rightarrow> d | Some s \<Rightarrow> or_else s d)"

text \<open>A value inside a template literal: \<open>undefined\<close> prints as the word.\<close>

definition interp :: "string option \<Rightarrow> string" where
  "interp v = (case v of None \<Rightarrow> ''undefined'' | Some s \<Rightarrow> s)"

fun js_join :: "string \<Rightarrow> string list \<Rightarrow> string" where
  "js_join sep [] = []"
| "js_join sep [x] = x"
| "js_join sep (x # y # ys) = x @ sep @ js_join sep (y # ys)"

text \<open>Decimal digits: \<open>\d\<close>, \<open>parseInt(ds, 10)\<close> on a run of digits, and \<open>String(n)\<close>.\<close>

definition isDigit :: "char \<Rightarrow> bool" where
  "isDigit c = (c \<in> set ''0123456789'')"

definition digitValue :: "char \<Rightarrow> nat" where
  "digitValue c =
     (case map_of (zip ''0123456789'' [0, 1, 2, 3, 4, 5, 6, 7, 8, 9]) c of
        Some d \<Rightarrow> d
      | None \<Rightarrow> 0)"

definition parseInt :: "string \<Rightarrow> nat" where
  "parseInt ds = foldl (\<lambda>acc c. 10 * acc + digitValue c) 0 ds"

definition digitChar :: "nat \<Rightarrow> char" where
  "digitChar d = ''0123456789'' ! (d mod 10)"

fun showNat :: "nat \<Rightarrow> string" where
  "showNat n = (if n < 10 then [digitChar n] else showNat (n div 10) @ [digitChar (n mod 10)])"

declare showNat.simps [simp del]

definition showInt :: "int \<Rightarrow> string" where
  "showInt i = (if i < 0 then CHR ''-'' # showNat (nat (- i)) else showNat (nat i))"

text \<open>\<open>\w\<close> of a regular expression without the unicode flag.\<close>

definition isWordChar :: "char \<Rightarrow> bool" where
  "isWordChar c =
     (c \<in> set ''abcdefghijklmnopqrstuvwxyzABCDEFGHIJKLMNOPQRSTUVWXYZ0123456789_'')"

text \<open>
  White space (\<open>\s\<close>, and what \<open>trim\<close> removes): \<open>wsLen s\<close> is the number of bytes of
  the white-space character \<open>s\<close> starts with, and 0 when it starts with none.  The
  characters are U+0009 to U+000D, U+0020, U+00A0, U+1680, U+2000 to U+200A, U+2028,
  U+2029, U+202F, U+205F, U+3000 and U+FEFF.
\<close>

definition wsLen :: "string \<Rightarrow> nat" where
  "wsLen s =
     (case s of
        [] \<Rightarrow> 0
      | c # cs \<Rightarrow>
          if c \<in> set [CHR 0x09, CHR 0x0A, CHR 0x0B, CHR 0x0C, CHR 0x0D, CHR 0x20] then 1
          else if c = CHR 0xC2 \<and> take 1 cs = [CHR 0xA0] then 2
          else if c = CHR 0xE1 \<and> take 2 cs = [CHR 0x9A, CHR 0x80] then 3
          else if c = CHR 0xE2 \<and> take 2 cs \<in> set
              [[CHR 0x80, CHR 0x80], [CHR 0x80, CHR 0x81], [CHR 0x80, CHR 0x82],
               [CHR 0x80, CHR 0x83], [CHR 0x80, CHR 0x84], [CHR 0x80, CHR 0x85],
               [CHR 0x80, CHR 0x86], [CHR 0x80, CHR 0x87], [CHR 0x80, CHR 0x88],
               [CHR 0x80, CHR 0x89], [CHR 0x80, CHR 0x8A], [CHR 0x80, CHR 0xA8],
               [CHR 0x80, CHR 0xA9], [CHR 0x80, CHR 0xAF], [CHR 0x81, CHR 0x9F]] then 3
          else if c = CHR 0xE3 \<and> take 2 cs = [CHR 0x80, CHR 0x80] then 3
          else if c = CHR 0xEF \<and> take 2 cs = [CHR 0xBB, CHR 0xBF] then 3
          else 0)"

text \<open>Greedy \<open>\s*\<close> at the head of a string: what is left after it.\<close>

fun dropWs :: "string \<Rightarrow> string" where
  "dropWs [] = []"
| "dropWs (c # cs) =
     (if wsLen (c # cs) = 1 then dropWs cs
      else if wsLen (c # cs) = 2 then dropWs (tl cs)
      else if wsLen (c # cs) = 3 then dropWs (tl (tl cs))
      else c # cs)"

fun trimEnd :: "string \<Rightarrow> string" where
  "trimEnd [] = []"
| "trimEnd (c # cs) = (if dropWs (c # cs) = [] then [] else c # trimEnd cs)"

declare dropWs.simps [simp del] trimEnd.simps [simp del]

definition trim :: "string \<Rightarrow> string" where
  "trim s = trimEnd (dropWs s)"

text \<open>
  \<open>String.fromCharCode(n)\<close> for a code unit \<open>n\<close> below the surrogate range, as UTF-8.
\<close>

definition fromCharCode :: "nat \<Rightarrow> string" where
  "fromCharCode n =
     (if n < 128 then [char_of n]
      else if n < 2048 then [char_of (192 + n div 64), char_of (128 + n mod 64)]
      else [char_of (224 + n div 4096), char_of (128 + (n div 64) mod 64),
            char_of (128 + n mod 64)])"

section \<open>Mode router\<close>

datatype NodeType = CodeFeedback | ConceptExplainer | QuizGenerator | MistakeAnalyzer | Router

fun nodeTag :: "NodeType \<Rightarrow> string" where
  "nodeTag CodeFeedback = ''code-feedback''"
| "nodeTag ConceptExplainer = ''concept-explainer''"
| "nodeTag QuizGenerator = ''quiz-generator''"
| "nodeTag MistakeAnalyzer = ''mistake-analyzer''"
| "nodeTag Router = ''router''"

text \<open>\<open>LangGraphManager.determineNode\<close>; the second argument is not read.\<close>

definition determineNode :: "string \<Rightarrow> 'ctx \<Rightarrow> NodeType" where
  "determineNode userInput context =
     (let input = toLowerCase userInput in
      if js_includes input ''code'' \<or> js_includes input ''debug'' \<or>
         js_includes input ''review'' \<or> js_includes input ''feedback''
      then CodeFeedback
      else if js_includes input ''quiz'' \<or> js_includes input ''test'' \<or>
         js_includes input ''question'' \<or> js_includes input ''practice''
      then QuizGenerator
      else if js_includes input ''progress'' \<or> js_includes input ''mistake'' \<or>
         js_includes input ''track'' \<or> js_includes input ''analysis''
      then MistakeAnalyzer
      else ConceptExplainer)"

section \<open>Users and collaborators\<close>

text \<open>
  \<open>UserPreferences\<close>, as the objects the program reads: the fallback object of
  \<open>executeGraph\<close> has \<open>session_count\<close> and \<open>preferred_pace\<close> too, and \<open>{}\<close> has no field.
\<close>

record UserPreferences =
  difficulty :: "string option"
  preferred_languages :: "string list option"
  learning_style :: "string option"
  explanation_mode :: "string option"
  topics_of_interest :: "string list option"
  session_count :: "nat option"
  preferred_pace :: "string option"

definition noPreferences :: UserPreferences where
  "noPreferences = \<lparr> difficulty = None, preferred_languages = None, learning_style = None,
     explanation_mode = None, topics_of_interest = None, session_count = None,
     preferred_pace = None \<rparr>"

record User =
  u_id :: string
  u_name :: "string option"
  u_username :: "string option"
  u_email :: "string option"
  preferences :: "UserPreferences option"

text \<open>What a call of \<open>db.getUserById\<close> does: it throws, or returns a user or \<open>null\<close>.\<close>

datatype UserLookup = LookupThrows | LookupUser "User option"

text \<open>
  The text-completion collaborator: a request, and what the call does with it.
  \<open>CompletionContent c\<close> is a response whose \<open>choices[0]?.message?.content\<close> is \<open>c\<close>.
\<close>

record CompletionRequest =
  model :: string
  content :: string
  max_tokens :: nat
  temperature :: rat

datatype CompletionOutcome = CompletionThrows | CompletionContent "string option"

datatype JsError = TypeError | SyntaxError | CompletionError | DatabaseError | RequestError

text \<open>Characters that cannot stand in a string literal of this text.\<close>

definition dq :: string where "dq = [CHR 0x22]"
definition nl :: string where "nl = [CHR 0x0A]"
definition sq :: string where "sq = [CHR 0x27]"
definition bq :: string where "bq = [CHR 0x60]"
definition fence :: string where "fence = bq @ bq @ bq"

section \<open>Quiz sessions\<close>

text \<open>
  The records of \<open>config/database.ts\<close>.  The program handles them as untyped objects, and
  the quiz generator stores questions that carry a \<open>question\<close> text only, so a field that
  an object may lack is an option: \<open>None\<close> is JavaScript's \<open>undefined\<close>.  Strict equality
  \<open>===\<close> of two such fields is equality of the options.
\<close>

record QuizQuestion =
  q_id :: "string option"
  q_type :: "string option"
  question :: "string option"
  options :: "string list option"
  code_snippet :: "string option"
  correct_answer :: "string option"
  explanation :: "string option"
  q_difficulty :: "string option"
  concepts :: "string list option"

text \<open>
  The interface \<open>QuizQuestion\<close> of \<open>config/database.ts\<close> requires every field but \<open>options\<close>
  and \<open>code_snippet\<close>, and its \<open>type\<close> is one of four tags.
\<close>

definition isQuizQuestion :: "QuizQuestion \<Rightarrow> bool" where
  "isQuizQuestion q =
     (q_id q \<noteq> None \<and>
      (q_type q = Some ''mcq'' \<or> q_type q = Some ''code_completion'' \<or>
       q_type q = Some ''explain_output'' \<or> q_type q = Some ''debug'') \<and>
      question q \<noteq> None \<and> correct_answer q \<noteq> None \<and> explanation q \<noteq> None \<and>
      q_difficulty q \<noteq> None \<and> concepts q \<noteq> None)"

text \<open>An element of the \<open>answers\<close> array of a submit request.\<close>

record SubmittedAnswer =
  question_id :: "string option"
  user_answer :: "string option"
  time_taken :: "int option"

text \<open>A graded answer; \<open>is_correct\<close> is \<open>undefined\<close> when no question has the answer's id.\<close>

record QuizAnswer =
  qa_question_id :: "string option"
  qa_user_answer :: "string option"
  is_correct :: "bool option"
  qa_time_taken :: int
  timestamp :: string

record QuizSession =
  s_id :: string
  user_id :: string
  questions :: "QuizQuestion list option"
  answers :: "QuizAnswer list"
  score :: int
  total_questions :: int
  completed :: bool
  s_time_taken :: int
  created_at :: string
  completed_at :: "string option"

text \<open>\<open>Partial<QuizSession>\<close>: the fields an update sets.\<close>

record QuizSessionUpdate =
  set_id :: "string option"
  set_user_id :: "string option"
  set_questions :: "QuizQuestion list option option"
  set_answers :: "QuizAnswer list option"
  set_score :: "int option"
  set_total_questions :: "int option"
  set_completed :: "bool option"
  set_time_taken :: "int option"
  set_created_at :: "string option"
  set_completed_at :: "string option"

definition noUpdate :: QuizSessionUpdate where
  "noUpdate = \<lparr> set_id = None, set_user_id = None, set_questions = None, set_answers = None,
     set_score = None, set_total_questions = None, set_completed = None, set_time_taken = None,
     set_created_at = None, set_completed_at = None \<rparr>"

text \<open>
  The table \<open>quiz_sessions\<close> of the record store is the list of its rows.
  \<open>db.getUserQuizSessions\<close> selects the rows of a user; \<open>db.updateQuizSession\<close> writes
  the fields of the update into the rows with the given id.
\<close>

type_synonym QuizTable = "QuizSession list"

definition getUserQuizSessions :: "QuizTable \<Rightarrow> string \<Rightarrow> QuizSession list" where
  "getUserQuizSessions db userId = filter (\<lambda>s. user_id s = userId) db"

definition applyUpdate :: "QuizSessionUpdate \<Rightarrow> QuizSession \<Rightarrow> QuizSession" where
  "applyUpdate u s =
     \<lparr> s_id = (case set_id u of Some v \<Rightarrow> v | None \<Rightarrow> s_id s),
       user_id = (case set_user_id u of Some v \<Rightarrow> v | None \<Rightarrow> user_id s),
       questions = (case set_questions u of Some v \<Rightarrow> v | None \<Rightarrow> questions s),
       answers = (case set_answers u of Some v \<Rightarrow> v | None \<Rightarrow> answers s),
       score = (case set_score u of Some v \<Rightarrow> v | None \<Rightarrow> score s),
       total_questions = (case set_total_questions u of Some v \<Rightarrow> v | None \<Rightarrow> total_questions s),
       completed = (case set_completed u of Some v \<Rightarrow> v | None \<Rightarrow> completed s),
       s_time_taken = (case set_time_taken u of Some v \<Rightarrow> v | None \<Rightarrow> s_time_taken s),
       created_at = (case set_created_at u of Some v \<Rightarrow> v | None \<Rightarrow> created_at s),
       completed_at = (case set_completed_at u of Some v \<Rightarrow> Some v | None \<Rightarrow> completed_at s) \<rparr>"

definition updateQuizSession :: "QuizTable \<Rightarrow> string \<Rightarrow> QuizSessionUpdate \<Rightarrow> QuizTable" where
  "updateQuizSession db sessionId u = map (\<lambda>s. if s_id s = sessionId then applyUpdate u s else s) db"

record WrongExplanation =
  we_question :: "string option"
  we_correct_answer :: "string option"
  we_explanation :: "string option"

record SubmitData =
  r_score :: int
  r_total_questions :: nat
  wrong_explanations :: "WrongExplanation list"

datatype SubmitResponse = Unauthorized401 | NotFound404 | Success SubmitData

text \<open>
  The callback of \<open>answers.map\<close> in the submit handler: it grades one answer and
  increments the counter \<open>score\<close> of the enclosing function.  \<open>clock k\<close> is the \<open>k\<close>-th
  reading of the clock during the request.
\<close>

definition gradeAnswer :: "QuizQuestion list \<Rightarrow> string \<Rightarrow> SubmittedAnswer \<Rightarrow> int \<Rightarrow> QuizAnswer \<times> int" where
  "gradeAnswer qs now ans sc =
     (let q = find (\<lambda>qq. q_id qq = question_id ans) qs;
          correct = (case q of None \<Rightarrow> None | Some q' \<Rightarrow> Some (user_answer ans = correct_answer q'));
          sc' = (if correct = Some True then sc + 1 else sc)
      in (\<lparr> qa_question_id = question_id ans,
             qa_user_answer = user_answer ans,
             is_correct = correct,
             qa_time_taken = (case time_taken ans of None \<Rightarrow> 0 | Some t \<Rightarrow> t),
             timestamp = now \<rparr>, sc'))"

fun detailAnswers ::
  "QuizQuestion list \<Rightarrow> (nat \<Rightarrow> string) \<Rightarrow> nat \<Rightarrow> SubmittedAnswer list \<Rightarrow> int \<Rightarrow> QuizAnswer list \<times> int" where
  "detailAnswers qs clock k [] sc = ([], sc)"
| "detailAnswers qs clock k (ans # rest) sc =
     (case gradeAnswer qs (clock k) ans sc of
        (d, sc') \<Rightarrow> (case detailAnswers qs clock (Suc k) rest sc' of (ds, sc'') \<Rightarrow> (d # ds, sc'')))"

definition explainWrong :: "QuizQuestion list \<Rightarrow> QuizAnswer \<Rightarrow> WrongExplanation" where
  "explainWrong qs a =
     (case find (\<lambda>qq. q_id qq = qa_question_id a) qs of
        None \<Rightarrow> \<lparr> we_question = None, we_correct_answer = None, we_explanation = None \<rparr>
      | Some q \<Rightarrow> \<lparr> we_question = question q, we_correct_answer = correct_answer q,
                   we_explanation = explanation q \<rparr>)"

text \<open>
  \<open>POST /api/quiz/sessions/:sessionId/submit\<close>.  \<open>reqUser\<close> is \<open>req.user.id\<close> when the
  request carries a user; the handler returns the response and the table it leaves.
\<close>

definition submitAnswers ::
  "QuizTable \<Rightarrow> (nat \<Rightarrow> string) \<Rightarrow> string option \<Rightarrow> string \<Rightarrow> SubmittedAnswer list
     \<Rightarrow> SubmitResponse \<times> QuizTable" where
  "submitAnswers db clock reqUser sessionId submitted =
     (case reqUser of
        None \<Rightarrow> (Unauthorized401, db)
      | Some userId \<Rightarrow>
          if userId = [] then (Unauthorized401, db)
          else
            (case find (\<lambda>s. s_id s = sessionId) (getUserQuizSessions db userId) of
               None \<Rightarrow> (NotFound404, db)
             | Some session \<Rightarrow>
                 (let qs = (case questions session of None \<Rightarrow> [] | Some l \<Rightarrow> l) in
                  case detailAnswers qs clock 0 submitted 0 of
                    (detailedAnswers, sc) \<Rightarrow>
                      (let db' = updateQuizSession db sessionId
                             (noUpdate \<lparr> set_answers := Some detailedAnswers,
                                         set_score := Some sc,
                                         set_completed := Some True,
                                         set_completed_at := Some (clock (length submitted)) \<rparr>);
                           wrongExplanations =
                             map (explainWrong qs)
                               (filter (\<lambda>a. is_correct a \<noteq> Some True) detailedAnswers)
                       in (Success \<lparr> r_score = sc,
                                     r_total_questions = length qs,
                                     wrong_explanations = wrongExplanations \<rparr>, db')))))"

text \<open>
  \<open>PATCH /api/quiz/sessions/:sessionId\<close>: the request body is the update, written as it
  comes.
\<close>

definition patchSession :: "QuizTable \<Rightarrow> string \<Rightarrow> QuizSessionUpdate \<Rightarrow> QuizTable" where
  "patchSession db sessionId updates = updateQuizSession db sessionId updates"

text \<open>What the update of the submit handler does to a row of the table.\<close>

definition markSubmitted :: "string \<Rightarrow> QuizAnswer list \<Rightarrow> int \<Rightarrow> string \<Rightarrow> QuizSession \<Rightarrow> QuizSession" where
  "markSubmitted sid ds sc t s =
     (if s_id s = sid then s \<lparr> answers := ds, score := sc, completed := True, completed_at := Some t \<rparr>
      else s)"

text \<open>
  What the handler computes for one answer: the question that \<open>questions.find\<close> returns
  for it, the first whose \<open>id\<close> is \<open>===\<close> the answer's \<open>question_id\<close>; whether the
  answer raises the score, that is whether such a question exists and the answer's
  \<open>user_answer\<close> is \<open>===\<close> its \<open>correct_answer\<close>; and the entry of \<open>wrong_explanations\<close>
  for it.  Under \<open>===\<close> two missing fields are equal.
\<close>

definition foundQuestion :: "QuizQuestion list \<Rightarrow> SubmittedAnswer \<Rightarrow> QuizQuestion option" where
  "foundQuestion qs a = find (\<lambda>q. q_id q = question_id a) qs"

definition gradedCorrect :: "QuizQuestion list \<Rightarrow> SubmittedAnswer \<Rightarrow> bool" where
  "gradedCorrect qs a =
     (case foundQuestion qs a of None \<Rightarrow> False | Some q \<Rightarrow> user_answer a = correct_answer q)"

definition explanationFor :: "QuizQuestion list \<Rightarrow> SubmittedAnswer \<Rightarrow> WrongExplanation" where
  "explanationFor qs a =
     (case foundQuestion qs a of
        None \<Rightarrow> \<lparr> we_question = None, we_correct_answer = None, we_explanation = None \<rparr>
      | Some q \<Rightarrow> \<lparr> we_question = question q, we_correct_answer = correct_answer q,
                   we_explanation = explanation q \<rparr>)"

text \<open>
  The grading rule in the words of the specification.  The question of an answer is the
  first question whose id is the string that the answer carries as \<open>question_id\<close>; an
  answer is correct when it has such a question and its \<open>user_answer\<close> is a string, the
  question's \<open>correct_answer\<close> is a string, and the two strings are the same, character
  by character.  A field that is missing is no string: it matches no id and equals no
  answer.
\<close>

definition questionOf :: "QuizQuestion list \<Rightarrow> SubmittedAnswer \<Rightarrow> QuizQuestion option" where
  "questionOf qs a =
     (case question_id a of None \<Rightarrow> None | Some i \<Rightarrow> find (\<lambda>q. q_id q = Some i) qs)"

definition answeredCorrectly :: "QuizQuestion list \<Rightarrow> SubmittedAnswer \<Rightarrow> bool" where
  "answeredCorrectly qs a =
     (case questionOf qs a of
        None \<Rightarrow> False
      | Some q \<Rightarrow>
          (case user_answer a of
             None \<Rightarrow> False
           | Some given \<Rightarrow> (case correct_answer q of None \<Rightarrow> False | Some expected \<Rightarrow> given = expected)))"

definition explanationOf :: "QuizQuestion list \<Rightarrow> SubmittedAnswer \<Rightarrow> WrongExplanation" where
  "explanationOf qs a =
     (case questionOf qs a of
        None \<Rightarrow> \<lparr> we_question = None, we_correct_answer = None, we_explanation = None \<rparr>
      | Some q \<Rightarrow> \<lparr> we_question = question q, we_correct_answer = correct_answer q,
                   we_explanation = explanation q \<rparr>)"

text \<open>A stored quiz of five questions and a submission, used to run the handlers.\<close>

definition exampleQuestion :: "string \<Rightarrow> string \<Rightarrow> QuizQuestion" where
  "exampleQuestion i ans =
     \<lparr> q_id = Some i, q_type = Some ''mcq'', question = Some (''Question '' @ i),
       options = Some [''W'', ''X'', ''Y'', ''Z''], code_snippet = Some [],
       correct_answer = Some ans, explanation = Some (''Because '' @ ans),
       q_difficulty = Some ''beginner'', concepts = Some [''JavaScript''] \<rparr>"

definition exampleQuestions :: "QuizQuestion list" where
  "exampleQuestions =
     [exampleQuestion ''1'' ''a'', exampleQuestion ''2'' ''b'', exampleQuestion ''3'' ''c'',
      exampleQuestion ''4'' ''d'', exampleQuestion ''5'' ''a'']"

definition exampleTable :: QuizTable where
  "exampleTable =
     [\<lparr> s_id = ''s1'', user_id = ''u1'', questions = Some exampleQuestions, answers = [],
        score = 0, total_questions = 5, completed = False, s_time_taken = 0,
        created_at = ''t0'', completed_at = None \<rparr>]"

definition exampleAnswer :: "string \<Rightarrow> string \<Rightarrow> SubmittedAnswer" where
  "exampleAnswer i ans = \<lparr> question_id = Some i, user_answer = Some ans, time_taken = Some 0 \<rparr>"

definition exampleAnswers :: "SubmittedAnswer list" where
  "exampleAnswers =
     [exampleAnswer ''1'' ''a'', exampleAnswer ''2'' ''B'', exampleAnswer ''3'' ''c '',
      exampleAnswer ''4'' ''d'', exampleAnswer ''5'' ''b'']"

definition exampleClock :: "nat \<Rightarrow> string" where
  "exampleClock k = ''t'' @ showNat (Suc k)"

text \<open>The table with a second session, completed, of another user.\<close>

definition otherSession :: QuizSession where
  "otherSession =
     \<lparr> s_id = ''s9'', user_id = ''u2'', questions = Some [exampleQuestion ''1'' ''a''],
       answers = [\<lparr> qa_question_id = Some ''1'', qa_user_answer = Some ''a'',
                    is_correct = Some True, qa_time_taken = 3, timestamp = ''t0'' \<rparr>],
       score = 1, total_questions = 1, completed = True, s_time_taken = 3,
       created_at = ''t0'', completed_at = Some ''t0'' \<rparr>"

definition twoSessions :: QuizTable where
  "twoSessions = exampleTable @ [otherSession]"


section \<open>Chat sessions and the state of a turn\<close>

record HistoryEntry =
  h_timestamp :: string
  h_user_input :: string
  h_node :: string
  h_response :: string

text \<open>
  The value under \<open>conversation_history\<close> in a context that comes from outside: an array,
  or \<open>null\<close>.
\<close>

datatype HistoryValue = HistoryArray "HistoryEntry list" | HistoryNull

text \<open>
  The context of a session is an object without a fixed schema.  The record has the keys
  of \<open>TutorState.context\<close> and the keys \<open>quizContext\<close> and \<open>requested_node\<close> that the callers
  add; a key the object lacks is \<open>None\<close>.  The quiz that a client sends along is a stored
  quiz session.
\<close>

record Context =
  user_preferences :: "UserPreferences option"
  current_topic :: "string option"
  last_code_snippet :: "string option"
  active_quiz :: "string option"
  learning_objective :: "string option"
  conversation_history :: "HistoryValue option"
  ctx_available_transitions :: "string list option"
  user_input :: "string option"
  node_output :: "string option"
  ctx_error :: "string option"
  quizContext :: "QuizSession option"
  requested_node :: "string option"

definition emptyContext :: Context where
  "emptyContext = \<lparr> user_preferences = None, current_topic = None, last_code_snippet = None,
     active_quiz = None, learning_objective = None, conversation_history = None,
     ctx_available_transitions = None, user_input = None, node_output = None, ctx_error = None,
     quizContext = None, requested_node = None \<rparr>"

text \<open>\<open>{ ...a, ...b }\<close>: a key of \<open>b\<close> replaces the key of \<open>a\<close>.\<close>

definition later :: "'a option \<Rightarrow> 'a option \<Rightarrow> 'a option" where
  "later a b = (case b of Some v \<Rightarrow> Some v | None \<Rightarrow> a)"

definition spread :: "Context \<Rightarrow> Context \<Rightarrow> Context" where
  "spread a b =
     \<lparr> user_preferences = later (user_preferences a) (user_preferences b),
       current_topic = later (current_topic a) (current_topic b),
       last_code_snippet = later (last_code_snippet a) (last_code_snippet b),
       active_quiz = later (active_quiz a) (active_quiz b),
       learning_objective = later (learning_objective a) (learning_objective b),
       conversation_history = later (conversation_history a) (conversation_history b),
       ctx_available_transitions = later (ctx_available_transitions a) (ctx_available_transitions b),
       user_input = later (user_input a) (user_input b),
       node_output = later (node_output a) (node_output b),
       ctx_error = later (ctx_error a) (ctx_error b),
       quizContext = later (quizContext a) (quizContext b),
       requested_node = later (requested_node a) (requested_node b) \<rparr>"

record Metadata =
  md_timestamp :: string
  iteration_count :: nat

record TutorState =
  st_current_node :: NodeType
  st_user_id :: string
  st_session_id :: string
  st_context :: Context
  st_metadata :: Metadata

text \<open>The object \<open>executeGraph\<close> returns.\<close>

record GraphResult =
  response :: string
  current_node :: NodeType
  available_transitions :: "NodeType list"
  session_context :: Context
  metadata :: Metadata

definition allNodes :: "NodeType list" where
  "allNodes = [CodeFeedback, ConceptExplainer, QuizGenerator, MistakeAnalyzer]"

text \<open>The argument of \<open>db.updateChatSession\<close> in \<open>saveSessionState\<close>.\<close>

record ChatSessionUpdate =
  upd_current_node :: NodeType
  upd_context :: Context
  upd_conversation_history :: "HistoryValue option"
  upd_available_transitions :: "NodeType list"

text \<open>What a call of \<open>db.updateChatSession\<close> does: it throws, or it returns.\<close>

datatype WriteOutcome = WriteThrows | WriteReturns

text \<open>
  The calls a turn makes to its collaborators, in the order it makes them; the clock is
  one of them.
\<close>

datatype Effect =
    GetUserById string
  | ReadClock
  | ChatCompletion CompletionRequest
  | UpdateChatSession string ChatSessionUpdate

section \<open>Quiz generation\<close>

text \<open>
  An element of the array that \<open>JSON.parse\<close> returns.  Reading a property of \<open>null\<close>
  throws; a number, a string, a boolean or an array has none of the properties read and
  behaves as an object without fields.  \<open>options\<close> is an object with labelled entries, an
  array, or anything else (absent, \<open>null\<close>, a primitive).
\<close>

datatype RawOptions = OptionsObject "string \<Rightarrow> string option" | OptionsArray "string list" | OptionsOther

record RawQuestion =
  raw_question :: "string option"
  raw_options :: RawOptions
  raw_code_snippet :: "string option"
  raw_answer :: "string option"
  raw_explanation :: "string option"

datatype RawItem = RawNull | RawObject RawQuestion

text \<open>
  What the program reaches outside: the user table, the completion collaborator,
  \<open>JSON.parse\<close> on a text that starts with a bracket and ends with one (\<open>None\<close> is its
  \<open>SyntaxError\<close>), \<open>Date.now()\<close> and \<open>new Date().toISOString()\<close> at their \<open>k\<close>-th reading
  during a call, and the update of a chat session.
\<close>

record Env =
  getUserById :: "string \<Rightarrow> UserLookup"
  complete :: "CompletionRequest \<Rightarrow> CompletionOutcome"
  jsonParse :: "string \<Rightarrow> RawItem list option"
  dateNow :: "nat \<Rightarrow> nat"
  isoNow :: "nat \<Rightarrow> string"
  updateChatSession :: "string \<Rightarrow> ChatSessionUpdate \<Rightarrow> WriteOutcome"

text \<open>\<open>content.replace(/```json|```/gi, '')\<close>.\<close>

fun removeFences :: "string \<Rightarrow> string" where
  "removeFences [] = []"
| "removeFences (c # cs) =
     (if startsWithCI (c # cs) (fence @ ''json'') then removeFences (drop 6 cs)
      else if startsWith (c # cs) fence then removeFences (drop 2 cs)
      else c # removeFences cs)"

declare removeFences.simps [simp del]

text \<open>
  \<open>content.match(/\[.*\]/s)\<close>: from the first opening bracket to the last closing bracket
  after it.
\<close>

definition matchArray :: "string \<Rightarrow> string option" where
  "matchArray s =
     (let t = dropWhile (\<lambda>c. c \<noteq> CHR ''['') s in
      if CHR '']'' \<in> set t then Some (rev (dropWhile (\<lambda>c. c \<noteq> CHR '']'') (rev t))) else None)"

text \<open>The conversion of \<open>q.options\<close> inside the mapping callback.\<close>

definition optionsArr :: "RawOptions \<Rightarrow> string list" where
  "optionsArr opts =
     (case opts of
        OptionsObject obj \<Rightarrow> map (\<lambda>key. or_default (obj key) []) [''a'', ''b'', ''c'', ''d'']
      | OptionsArray arr \<Rightarrow> arr
      | OptionsOther \<Rightarrow> [])"

definition mapQuestion :: "(nat \<Rightarrow> nat) \<Rightarrow> string \<Rightarrow> string \<Rightarrow> RawItem \<Rightarrow> nat \<Rightarrow> JsError + QuizQuestion" where
  "mapQuestion now quizDifficulty topic item idx =
     (case item of
        RawNull \<Rightarrow> Inl TypeError
      | RawObject q \<Rightarrow>
          Inr \<lparr> q_id = Some (showNat (now idx) @ ''_'' @ showNat idx),
                q_type = Some ''mcq'',
                question = Some (or_default (raw_question q) []),
                options = Some (optionsArr (raw_options q)),
                code_snippet = Some (or_default (raw_code_snippet q) []),
                correct_answer = Some (or_default (raw_answer q) []),
                explanation = Some (or_default (raw_explanation q) []),
                q_difficulty = Some quizDifficulty,
                concepts = Some [topic] \<rparr>)"

text \<open>\<open>rawQuestions.map\<close> with the index; the first exception ends it.\<close>

fun mapQuestions :: "(nat \<Rightarrow> nat) \<Rightarrow> string \<Rightarrow> string \<Rightarrow> nat \<Rightarrow> RawItem list \<Rightarrow> JsError + QuizQuestion list" where
  "mapQuestions now quizDifficulty topic idx [] = Inr []"
| "mapQuestions now quizDifficulty topic idx (item # items) =
     (case mapQuestion now quizDifficulty topic item idx of
        Inl e \<Rightarrow> Inl e
      | Inr q \<Rightarrow>
          (case mapQuestions now quizDifficulty topic (Suc idx) items of
             Inl e \<Rightarrow> Inl e
           | Inr qs \<Rightarrow> Inr (q # qs)))"

text \<open>The object \<open>{ question: text }\<close>.\<close>

definition questionOnly :: "string \<Rightarrow> QuizQuestion" where
  "questionOnly text =
     \<lparr> q_id = None, q_type = None, question = Some text, options = None, code_snippet = None,
       correct_answer = None, explanation = None, q_difficulty = None, concepts = None \<rparr>"

definition quizPrompt :: "int \<Rightarrow> string \<Rightarrow> string \<Rightarrow> string \<Rightarrow> string" where
  "quizPrompt totalQuestions topic difficultyLabel languages =
     ''You are an expert programming tutor in Quiz Mode. Create '' @ showInt totalQuestions @
     '' multiple choice questions about '' @ dq @ topic @ dq @ '' for a '' @
     toUpperCase difficultyLabel @ '' level student using '' @ languages @
     ''. Make the questions appropriately challenging for a '' @ difficultyLabel @
     '' level. Each question should have 4 options (a, b, c, d) and indicate the correct answer and a brief explanation. Respond in JSON array format: [{question, options: {a, b, c, d}, answer, explanation}].''"

text \<open>
  \<open>LangGraphManager.generateQuizQuestions\<close>.  The body of its \<open>try\<close> returns the list or
  throws; the \<open>catch\<close> turns every exception into the list of one question that reports
  the failure.
\<close>

definition generateQuizQuestions_try ::
  "Env \<Rightarrow> string \<Rightarrow> string \<Rightarrow> string \<Rightarrow> JsError + QuizQuestion list" where
  "generateQuizQuestions_try env prompt topic quizDifficulty =
     (case complete env \<lparr> model = ''gpt-3.5-turbo'', content = prompt, max_tokens = 1200,
                           temperature = 8 / 10 \<rparr> of
        CompletionThrows \<Rightarrow> Inl CompletionError
      | CompletionContent c \<Rightarrow>
          (let content0 = or_default c [];
               content1 = trim (removeFences content0)
           in case matchArray content1 of
                None \<Rightarrow> Inr [questionOnly (''No quiz generated for topic: '' @ topic)]
              | Some m \<Rightarrow>
                  (case jsonParse env m of
                     None \<Rightarrow> Inl SyntaxError
                   | Some rawQuestions \<Rightarrow> mapQuestions (dateNow env) quizDifficulty topic 0 rawQuestions)))"

definition generateQuizQuestions ::
  "Env \<Rightarrow> string \<Rightarrow> int \<Rightarrow> string \<Rightarrow> string option \<Rightarrow> QuizQuestion list" where
  "generateQuizQuestions env topic totalQuestions userId difficultyArg =
     (let userPreferences =
            (case getUserById env userId of
               LookupThrows \<Rightarrow> noPreferences
             | LookupUser None \<Rightarrow> noPreferences
             | LookupUser (Some user) \<Rightarrow>
                 (case preferences user of None \<Rightarrow> noPreferences | Some p \<Rightarrow> p));
          quizDifficulty =
            toLowerCase (or_default difficultyArg (or_default (difficulty userPreferences) ''beginner''));
          difficultyLabel = toUpperCase (take 1 quizDifficulty) @ drop 1 quizDifficulty;
          languages =
            or_default (map_option (js_join '', '') (preferred_languages userPreferences)) ''JavaScript'';
          prompt = quizPrompt totalQuestions topic difficultyLabel languages
      in case generateQuizQuestions_try env prompt topic quizDifficulty of
           Inr qs \<Rightarrow> qs
         | Inl e \<Rightarrow> [questionOnly (''Failed to generate quiz for topic: '' @ topic)])"

text \<open>
  A completion text holds no valid JSON array when, fences removed, it has no bracketed
  part or \<open>JSON.parse\<close> rejects that part.
\<close>

definition noJsonArray :: "Env \<Rightarrow> string option \<Rightarrow> bool" where
  "noJsonArray env c =
     (case matchArray (trim (removeFences (or_default c []))) of
        None \<Rightarrow> True
      | Some m \<Rightarrow> jsonParse env m = None)"

text \<open>Collaborators used to run the generator: one that throws, one that answers in prose,
  and one that answers with a question whose options are a list of two.\<close>

definition throwingEnv :: Env where
  "throwingEnv = \<lparr> getUserById = (\<lambda>u. LookupThrows), complete = (\<lambda>r. CompletionThrows),
     jsonParse = (\<lambda>t. None), dateNow = (\<lambda>k. 1700000000000),
     isoNow = exampleClock, updateChatSession = (\<lambda>i u. WriteThrows) \<rparr>"

definition proseEnv :: Env where
  "proseEnv = \<lparr> getUserById = (\<lambda>u. LookupUser None),
     complete = (\<lambda>r. CompletionContent (Some ''Sorry, I cannot write a quiz [yet.'')),
     jsonParse = (\<lambda>t. None), dateNow = (\<lambda>k. 1700000000000),
     isoNow = exampleClock, updateChatSession = (\<lambda>i u. WriteThrows) \<rparr>"

definition twoOptionsJson :: string where
  "twoOptionsJson = ''[{'' @ dq @ ''question'' @ dq @ '': '' @ dq @ ''Q'' @ dq @ '', '' @
     dq @ ''options'' @ dq @ '': ['' @ dq @ ''X'' @ dq @ '', '' @ dq @ ''Y'' @ dq @ ''], '' @
     dq @ ''answer'' @ dq @ '': '' @ dq @ ''a'' @ dq @ ''}]''"

definition fencedReply :: string where
  "fencedReply = fence @ ''json'' @ nl @ twoOptionsJson @ nl @ fence"

definition twoOptionsEnv :: Env where
  "twoOptionsEnv = \<lparr> getUserById = (\<lambda>u. LookupUser None),
     complete = (\<lambda>r. CompletionContent (Some fencedReply)),
     jsonParse = (\<lambda>t. if t = twoOptionsJson
        then Some [RawObject \<lparr> raw_question = Some ''Q'', raw_options = OptionsArray [''X'', ''Y''],
               raw_code_snippet = None, raw_answer = Some ''a'', raw_explanation = None \<rparr>]
        else None),
     dateNow = (\<lambda>k. 1700000000000), isoNow = exampleClock,
     updateChatSession = (\<lambda>i u. WriteReturns) \<rparr>"

section \<open>Mode executors\<close>

text \<open>
  Each executor reads the preferences and the input from the context of the state, builds
  its instruction, and calls the completion collaborator.  A response without content
  gives the executor's standard sentence; when the call throws, the \<open>catch\<close> builds the
  canned answer of the mode.  The canned answer reads \<open>userInput.toLowerCase()\<close>, which
  throws when the context has no \<open>user_input\<close>.  An executor returns its answer or the
  exception that leaves it, and the calls it made.
\<close>

definition preferredDifficulty :: "Context \<Rightarrow> string" where
  "preferredDifficulty ctx =
     or_default (case user_preferences ctx of None \<Rightarrow> None | Some p \<Rightarrow> difficulty p) ''beginner''"

definition preferredLanguages :: "Context \<Rightarrow> string" where
  "preferredLanguages ctx =
     or_default
       (case user_preferences ctx of
          None \<Rightarrow> None
        | Some p \<Rightarrow> map_option (js_join '', '') (preferred_languages p))
       ''JavaScript''"

definition preferredStyle :: "Context \<Rightarrow> string" where
  "preferredStyle ctx =
     or_default (case user_preferences ctx of None \<Rightarrow> None | Some p \<Rightarrow> learning_style p) ''hands-on''"

definition codeFeedbackPrompt :: "string \<Rightarrow> string \<Rightarrow> string \<Rightarrow> string option \<Rightarrow> string option \<Rightarrow> string" where
  "codeFeedbackPrompt difficultyTier languages learningStyle userInput lastCodeSnippet =
     (''You are an expert programming tutor in Code Feedback Mode. Your role is to provide detailed, constructive code analysis and feedback.'' @ nl @
       nl @
       ''Student Profile:'' @ nl @
       ''- Level: '' @
       difficultyTier @
       nl @
       ''- Preferred Languages: '' @
       languages @
       nl @
       ''- Learning Style: '' @
       learningStyle @
       nl @
       nl @
       ''User Request: '' @ dq @
       interp userInput @
       dq @ nl @
       nl @
       (case lastCodeSnippet of
          None \<Rightarrow> ''No code provided yet.''
        | Some snippet \<Rightarrow>
            if snippet = [] then ''No code provided yet.''
            else ''Code to analyze: '' @
              snippet) @
       nl @
       nl @
       ''Instructions:'' @ nl @
       ''- If code is provided, give specific feedback on bugs, improvements, and best practices'' @ nl @
       ''- If no code is provided, explain how you can help and ask for code to review'' @ nl @
       ''- Tailor your explanation to the '' @
       difficultyTier @
       '' level'' @ nl @
       ''- Be encouraging and educational'' @ nl @
       ''- Provide actionable suggestions'' @ nl @
       nl @
       ''Response format: Start with '' @ dq @ ''[Code Feedback Mode]'' @ dq @ '' then provide your analysis.'')"

definition codeFeedbackDefault :: "string" where
  "codeFeedbackDefault =
     (''[Code Feedback Mode] I'' @ sq @ ''m ready to help you with code analysis! Please share your code and I'' @ sq @ ''ll provide detailed feedback.'')"

definition codeFeedbackFallback :: "string \<Rightarrow> string \<Rightarrow> string \<Rightarrow> string" where
  "codeFeedbackFallback languages difficultyTier userInput =
     (''[Code Feedback Mode] Hello! I'' @ sq @ ''m your AI code reviewer, ready to help you improve your '' @
       languages @
       '' code.'' @ nl @
       nl @
       ''As a '' @
       difficultyTier @
       '' level developer, I can analyze your code for:'' @ nl @
       ''- '' @ [CHR 0xF0, CHR 0x9F, CHR 0x90, CHR 0x9B] @ '' Bug detection and fixes'' @ nl @
       ''- '' @ [CHR 0xE2, CHR 0x9C, CHR 0xA8] @ '' Code optimization suggestions  '' @ nl @
       ''- '' @ [CHR 0xF0, CHR 0x9F, CHR 0x93, CHR 0x9A] @ '' Best practices recommendations'' @ nl @
       ''- '' @ [CHR 0xF0, CHR 0x9F, CHR 0x94, CHR 0xA7] @ '' Debugging assistance'' @ nl @
       nl @
       (if js_includes (toLowerCase userInput) ''code'' \<or> js_includes (toLowerCase userInput) ''review''
        then ''Please paste your code here and I'' @ sq @ ''ll give you detailed, actionable feedback!''
        else ''Feel free to ask specific coding questions or share code for review!''))"

definition executeCodeFeedbackNode :: "Env \<Rightarrow> TutorState \<Rightarrow> (JsError + string) \<times> Effect list" where
  "executeCodeFeedbackNode env state =
     (let ctx = st_context state;
          difficultyTier = preferredDifficulty ctx;
          languages = preferredLanguages ctx;
          userInput = user_input ctx;
          prompt = codeFeedbackPrompt difficultyTier languages (preferredStyle ctx) userInput
                     (last_code_snippet ctx);
          request = \<lparr> model = ''gpt-3.5-turbo'', content = prompt, max_tokens = 500,
                      temperature = 7 / 10 \<rparr>
      in (case complete env request of
            CompletionContent c \<Rightarrow> Inr (or_default c codeFeedbackDefault)
          | CompletionThrows \<Rightarrow>
              (case userInput of
                 None \<Rightarrow> Inl TypeError
               | Some u \<Rightarrow> Inr (codeFeedbackFallback languages difficultyTier u)),
          [ChatCompletion request]))"

definition conceptExplainerPrompt :: "string \<Rightarrow> string \<Rightarrow> string \<Rightarrow> string option \<Rightarrow> string" where
  "conceptExplainerPrompt difficultyTier languages learningStyle userInput =
     (''You are an expert programming tutor in Concept Explainer Mode. Your role is to explain programming concepts clearly and effectively.'' @ nl @
       nl @
       ''Student Profile:'' @ nl @
       ''- Level: '' @
       difficultyTier @
       nl @
       ''- Preferred Languages: '' @
       languages @
       nl @
       ''- Learning Style: '' @
       learningStyle @
       nl @
       nl @
       ''User Request: '' @ dq @
       interp userInput @
       dq @ nl @
       nl @
       ''Instructions:'' @ nl @
       ''- Explain the requested concept in simple, clear terms appropriate for a '' @
       difficultyTier @
       '' level'' @ nl @
       ''- Use '' @
       learningStyle @
       '' learning approaches with practical examples'' @ nl @
       ''- If the request is general, offer to explain popular '' @
       languages @
       '' concepts'' @ nl @
       ''- Provide code examples when helpful'' @ nl @
       ''- Use analogies and real-world comparisons for complex concepts'' @ nl @
       ''- Be encouraging and build confidence'' @ nl @
       ''- Break down complex topics into digestible parts'' @ nl @
       nl @
       ''Response format: Start with '' @ dq @ ''[Concept Explainer Mode]'' @ dq @ '' then provide your explanation.'')"

definition conceptExplainerDefault :: "string" where
  "conceptExplainerDefault =
     (''[Concept Explainer Mode] I'' @ sq @ ''m ready to explain any programming concept! What would you like to learn about?'')"

definition conceptExplainerFallback :: "string \<Rightarrow> string \<Rightarrow> string \<Rightarrow> string \<Rightarrow> string" where
  "conceptExplainerFallback languages difficultyTier learningStyle userInput =
     (''[Concept Explainer Mode] Hello! I'' @ sq @ ''m your AI programming tutor, specialized in explaining '' @
       languages @
       '' concepts! '' @ [CHR 0xF0, CHR 0x9F, CHR 0x93, CHR 0x9A] @ nl @
       nl @
       [CHR 0xF0, CHR 0x9F, CHR 0x8E, CHR 0xAF] @ '' Tailored for your '' @
       difficultyTier @
       '' level using '' @
       learningStyle @
       '' learning approaches.'' @ nl @
       nl @
       ''I can help explain:'' @ nl @
       [CHR 0xE2, CHR 0x80, CHR 0xA2] @ '' '' @
       languages @
       '' fundamentals and advanced topics'' @ nl @
       [CHR 0xE2, CHR 0x80, CHR 0xA2] @ '' Programming patterns and best practices  '' @ nl @
       [CHR 0xE2, CHR 0x80, CHR 0xA2] @ '' Problem-solving techniques'' @ nl @
       [CHR 0xE2, CHR 0x80, CHR 0xA2] @ '' Code organization and architecture'' @ nl @
       nl @
       (if js_includes (toLowerCase userInput) ''explain'' \<or> js_includes (toLowerCase userInput) ''what'' \<or>
            js_includes (toLowerCase userInput) ''how''
        then ''Great question about '' @ dq @
          userInput @
          dq @ ''! I'' @ sq @ ''d love to break this down for you with practical examples.''
        else ''What programming concept would you like me to explain today? Just ask!'') @
       nl @
       nl @
       [CHR 0xF0, CHR 0x9F, CHR 0x92, CHR 0xA1] @ '' I'' @ sq @ ''ll use simple terms, real examples, and step-by-step breakdowns!'')"

definition executeConceptExplainerNode :: "Env \<Rightarrow> TutorState \<Rightarrow> (JsError + string) \<times> Effect list" where
  "executeConceptExplainerNode env state =
     (let ctx = st_context state;
          difficultyTier = preferredDifficulty ctx;
          learningStyle = preferredStyle ctx;
          languages = preferredLanguages ctx;
          userInput = user_input ctx;
          prompt = conceptExplainerPrompt difficultyTier languages learningStyle userInput;
          request = \<lparr> model = ''gpt-3.5-turbo'', content = prompt, max_tokens = 600,
                      temperature = 7 / 10 \<rparr>
      in (case complete env request of
            CompletionContent c \<Rightarrow> Inr (or_default c conceptExplainerDefault)
          | CompletionThrows \<Rightarrow>
              (case userInput of
                 None \<Rightarrow> Inl TypeError
               | Some u \<Rightarrow> Inr (conceptExplainerFallback languages difficultyTier learningStyle u)),
          [ChatCompletion request]))"

definition quizGeneratorPrompt :: "string \<Rightarrow> string \<Rightarrow> string option \<Rightarrow> string" where
  "quizGeneratorPrompt difficultyTier languages userInput =
     (''You are an expert programming tutor in Quiz Mode. Your role is to create engaging, educational programming quizzes and practice questions.'' @ nl @
       nl @
       ''Student Profile:'' @ nl @
       ''- Level: '' @
       difficultyTier @
       nl @
       ''- Preferred Languages: '' @
       languages @
       nl @
       ''- Request: '' @ dq @
       interp userInput @
       dq @ nl @
       nl @
       ''Instructions:'' @ nl @
       ''- Create questions appropriate for '' @
       difficultyTier @
       '' level programmers'' @ nl @
       ''- Focus on '' @
       languages @
       '' programming concepts'' @ nl @
       ''- If user wants to '' @ dq @ ''start quiz'' @ dq @ '' or '' @ dq @ ''create quiz'' @ dq @ '', generate 1-2 multiple choice questions with code examples'' @ nl @
       ''- Include clear explanations for answers'' @ nl @
       ''- Make questions practical and relevant to real programming scenarios'' @ nl @
       ''- If user asks for specific topics, create questions about those topics'' @ nl @
       ''- Use code snippets when appropriate'' @ nl @
       ''- Always explain the reasoning behind correct answers'' @ nl @
       nl @
       ''Response format: Start with '' @ dq @ ''[Quiz Mode]'' @ dq @ '' then provide your quiz content with questions, options, and explanations.'')"

definition quizGeneratorDefault :: "string" where
  "quizGeneratorDefault =
     (''[Quiz Mode] I'' @ sq @ ''m ready to create personalized programming quizzes for you! What topic would you like to be quizzed on?'')"

definition quizGeneratorFallback :: "string \<Rightarrow> string \<Rightarrow> string \<Rightarrow> string" where
  "quizGeneratorFallback languages difficultyTier userInput =
     (''[Quiz Mode] '' @ [CHR 0xF0, CHR 0x9F, CHR 0xA7, CHR 0xA0] @ '' Ready to test your '' @
       languages @
       '' programming knowledge? '' @ nl @
       nl @
       [CHR 0xF0, CHR 0x9F, CHR 0x8E, CHR 0xAF] @ '' **'' @
       toUpperCase difficultyTier @
       '' Level Quiz Available**'' @ nl @
       nl @
       ''I can create personalized quizzes featuring:'' @ nl @
       [CHR 0xE2, CHR 0x80, CHR 0xA2] @ '' '' @
       languages @
       '' syntax and concepts'' @ nl @
       [CHR 0xE2, CHR 0x80, CHR 0xA2] @ '' Code output prediction challenges  '' @ nl @
       [CHR 0xE2, CHR 0x80, CHR 0xA2] @ '' Debugging exercises'' @ nl @
       [CHR 0xE2, CHR 0x80, CHR 0xA2] @ '' Best practices questions'' @ nl @
       [CHR 0xE2, CHR 0x80, CHR 0xA2] @ '' Logic and problem-solving'' @ nl @
       nl @
       (if js_includes (toLowerCase userInput) ''quiz'' \<or> js_includes (toLowerCase userInput) ''test'' \<or>
            js_includes (toLowerCase userInput) ''question''
        then ''**'' @ [CHR 0xF0, CHR 0x9F, CHR 0x9A, CHR 0x80] @ '' Quick '' @
          languages @
          '' Challenge:**'' @ nl @
          ''  '' @ nl @
          ''  What will this code output?'' @ nl @
          ''  '' @ bq @ bq @ bq @ ''javascript'' @ nl @
          ''  const arr = [1, 2, 3];'' @ nl @
          ''  console.log(arr.map(x => x * 2));'' @ nl @
          ''  '' @ bq @ bq @ bq @ nl @
          ''  '' @ nl @
          ''  a) [1, 2, 3]'' @ nl @
          ''  b) [2, 4, 6]  '' @ nl @
          ''  c) [1, 4, 9]'' @ nl @
          ''  d) undefined'' @ nl @
          ''  '' @ nl @
          ''  **Answer: b) [2, 4, 6]** - map() creates a new array with each element multiplied by 2!''
        else ''What specific topic would you like me to quiz you on? Just ask!'') @
       nl @
       nl @
       [CHR 0xF0, CHR 0x9F, CHR 0x92, CHR 0xA1] @ '' Say '' @ dq @ ''start quiz'' @ dq @ '' for a random challenge, or request questions on specific topics!'')"

definition executeQuizGeneratorNode :: "Env \<Rightarrow> TutorState \<Rightarrow> (JsError + string) \<times> Effect list" where
  "executeQuizGeneratorNode env state =
     (let ctx = st_context state;
          difficultyTier = preferredDifficulty ctx;
          languages = preferredLanguages ctx;
          userInput = user_input ctx;
          prompt = quizGeneratorPrompt difficultyTier languages userInput;
          request = \<lparr> model = ''gpt-3.5-turbo'', content = prompt, max_tokens = 800,
                      temperature = 8 / 10 \<rparr>
      in (case complete env request of
            CompletionContent c \<Rightarrow> Inr (or_default c quizGeneratorDefault)
          | CompletionThrows \<Rightarrow>
              (case userInput of
                 None \<Rightarrow> Inl TypeError
               | Some u \<Rightarrow> Inr (quizGeneratorFallback languages difficultyTier u)),
          [ChatCompletion request]))"

definition mistakeAnalyzerPrompt :: "string \<Rightarrow> string \<Rightarrow> nat \<Rightarrow> string option \<Rightarrow> string" where
  "mistakeAnalyzerPrompt difficultyTier languages sessionsCompleted userInput =
     (''You are an expert programming tutor in Progress Analysis Mode. Your role is to analyze learning patterns, identify common mistakes, and provide personalized improvement guidance.'' @ nl @
       nl @
       ''Student Profile:'' @ nl @
       ''- Level: '' @
       difficultyTier @
       nl @
       ''- Preferred Languages: '' @
       languages @
       nl @
       ''- Sessions Completed: '' @
       showNat sessionsCompleted @
       nl @
       ''- Request: '' @ dq @
       interp userInput @
       dq @ nl @
       nl @
       ''Instructions:'' @ nl @
       ''- If user asks about progress, provide encouraging analysis of their learning journey'' @ nl @
       ''- If user mentions specific mistakes or errors, analyze the root cause and provide solutions'' @ nl @
       ''- Give practical advice for improvement based on their '' @
       difficultyTier @
       '' level'' @ nl @
       ''- Identify common mistake patterns for '' @
       languages @
       '' programming'' @ nl @
       ''- Suggest specific practice exercises and learning resources'' @ nl @
       ''- Be supportive and focus on growth rather than criticism'' @ nl @
       ''- Provide actionable next steps for improvement'' @ nl @
       ''- Include both strengths and areas for growth'' @ nl @
       nl @
       ''Response format: Start with '' @ dq @ ''[Progress Analyzer Mode]'' @ dq @ '' then provide your analysis with learning profile, recommendations, and actionable steps.'')"

definition mistakeAnalyzerDefault :: "string" where
  "mistakeAnalyzerDefault =
     (''[Progress Analyzer Mode] I'' @ sq @ ''m ready to analyze your programming progress and help you improve! What would you like to work on?'')"

definition mistakeAnalyzerFallback :: "string \<Rightarrow> string \<Rightarrow> nat \<Rightarrow> string \<Rightarrow> string \<Rightarrow> string" where
  "mistakeAnalyzerFallback languages difficultyTier sessionsCompleted learningStyle userInput =
     (''[Progress Analyzer Mode] '' @ [CHR 0xF0, CHR 0x9F, CHR 0x93, CHR 0x8A] @ '' Let'' @ sq @ ''s analyze your '' @
       languages @
       '' programming journey! '' @ nl @
       nl @
       ''**Your Learning Profile:**'' @ nl @
       ''- Current Level: '' @
       difficultyTier @
       nl @
       ''- Sessions Completed: '' @
       showNat sessionsCompleted @
       nl @
       ''- Focus Languages: '' @
       languages @
       nl @
       ''- Learning Style: '' @
       learningStyle @
       nl @
       nl @
       (if js_includes (toLowerCase userInput) ''mistake'' \<or> js_includes (toLowerCase userInput) ''error'' \<or>
            js_includes (toLowerCase userInput) ''wrong''
        then [CHR 0xF0, CHR 0x9F, CHR 0x94, CHR 0x8D] @ '' **Error Analysis Focus:**'' @ nl @
          ''  '' @ nl @
          ''  **Common '' @
          difficultyTier @
          '' Level Challenges:**'' @ nl @
          ''  '' @ [CHR 0xE2, CHR 0x80, CHR 0xA2] @ '' Syntax errors and typos'' @ nl @
          ''  '' @ [CHR 0xE2, CHR 0x80, CHR 0xA2] @ '' Logic bugs in conditionals/loops'' @ nl @
          ''  '' @ [CHR 0xE2, CHR 0x80, CHR 0xA2] @ '' Scope and variable confusion'' @ nl @
          ''  '' @ [CHR 0xE2, CHR 0x80, CHR 0xA2] @ '' Async/await misunderstanding'' @ nl @
          ''  '' @ nl @
          ''  **Improvement Strategy:**'' @ nl @
          ''  '' @ [CHR 0xE2, CHR 0x9C, CHR 0x85] @ '' Test code frequently in small chunks'' @ nl @
          ''  '' @ [CHR 0xE2, CHR 0x9C, CHR 0x85] @ '' Use console.log() for debugging'' @ nl @
          ''  '' @ [CHR 0xE2, CHR 0x9C, CHR 0x85] @ '' Read error messages carefully'' @ nl @
          ''  '' @ [CHR 0xE2, CHR 0x9C, CHR 0x85] @ '' Practice with online coding platforms'' @ nl @
          ''  '' @ nl @
          ''  **Share your specific error for detailed analysis!**''
        else [CHR 0xF0, CHR 0x9F, CHR 0x93, CHR 0x88] @ '' **Growth Opportunities:**'' @ nl @
          ''  '' @ nl @
          ''  **Strengths to Build On:**'' @ nl @
          ''  '' @ [CHR 0xE2, CHR 0x9C, CHR 0x85] @ '' Active learning engagement'' @ nl @
          ''  '' @ [CHR 0xE2, CHR 0x9C, CHR 0x85] @ '' '' @
          difficultyTier @
          '' level '' @
          languages @
          '' understanding'' @ nl @
          ''  '' @ [CHR 0xE2, CHR 0x9C, CHR 0x85] @ '' Problem-solving mindset'' @ nl @
          ''  '' @ nl @
          ''  **Next Level Skills:**'' @ nl @
          ''  '' @ [CHR 0xF0, CHR 0x9F, CHR 0x8E, CHR 0xAF] @ '' Advanced '' @
          languages @
          '' patterns'' @ nl @
          ''  '' @ [CHR 0xF0, CHR 0x9F, CHR 0x8E, CHR 0xAF] @ '' Code organization & best practices'' @ nl @
          ''  '' @ [CHR 0xF0, CHR 0x9F, CHR 0x8E, CHR 0xAF] @ '' Testing and debugging techniques'' @ nl @
          ''  '' @ [CHR 0xF0, CHR 0x9F, CHR 0x8E, CHR 0xAF] @ '' Performance optimization basics'' @ nl @
          ''  '' @ nl @
          ''  **Action Plan:**'' @ nl @
          ''  1. Practice coding challenges daily'' @ nl @
          ''  2. Build small projects using new concepts'' @ nl @
          ''  3. Review and refactor old code'' @ nl @
          ''  4. Study other developers'' @ sq @ '' solutions'') @
       nl @
       nl @
       [CHR 0xF0, CHR 0x9F, CHR 0x92, CHR 0xA1] @ '' What specific area would you like personalized feedback on?'')"

text \<open>\<open>state.context.conversation_history?.length || 0\<close>.\<close>

definition historyLength :: "Context \<Rightarrow> nat" where
  "historyLength ctx =
     (case conversation_history ctx of Some (HistoryArray h) \<Rightarrow> length h | _ \<Rightarrow> 0)"

definition executeMistakeAnalyzerNode :: "Env \<Rightarrow> TutorState \<Rightarrow> (JsError + string) \<times> Effect list" where
  "executeMistakeAnalyzerNode env state =
     (let ctx = st_context state;
          difficultyTier = preferredDifficulty ctx;
          languages = preferredLanguages ctx;
          userInput = user_input ctx;
          sessionsCompleted = historyLength ctx;
          prompt = mistakeAnalyzerPrompt difficultyTier languages sessionsCompleted userInput;
          request = \<lparr> model = ''gpt-3.5-turbo'', content = prompt, max_tokens = 700,
                      temperature = 6 / 10 \<rparr>
      in (case complete env request of
            CompletionContent c \<Rightarrow> Inr (or_default c mistakeAnalyzerDefault)
          | CompletionThrows \<Rightarrow>
              (case userInput of
                 None \<Rightarrow> Inl TypeError
               | Some u \<Rightarrow>
                   Inr (mistakeAnalyzerFallback languages difficultyTier sessionsCompleted
                          (preferredStyle ctx) u)),
          [ChatCompletion request]))"

section \<open>Dialogue orchestrator\<close>

subsection \<open>The patterns of the quiz follow-up\<close>

text \<open>
  \<open>str.match(re)\<close> for a pattern without the flag \<open>g\<close>: the match at the leftmost position
  where the pattern matches; \<open>m\<close> matches the pattern at the head of a string.
\<close>

fun searchFirst :: "(string \<Rightarrow> 'a option) \<Rightarrow> string \<Rightarrow> 'a option" where
  "searchFirst m [] = m []"
| "searchFirst m (c # cs) = (case m (c # cs) of Some r \<Rightarrow> Some r | None \<Rightarrow> searchFirst m cs)"

declare searchFirst.simps [simp del]

text \<open>A literal followed by \<open>(\d+)\<close>, greedy: the digits captured, if there is one.\<close>

definition digitsAfter :: "string \<Rightarrow> string option" where
  "digitsAfter s = (let ds = takeWhile isDigit s in if ds = [] then None else Some ds)"

text \<open>\<open>/question\s*(\d+)/i\<close>, \<open>/q(\d+)/i\<close> and \<open>/answer to (\d+)/i\<close> at the head of a string.\<close>

definition questionPattern :: "string \<Rightarrow> string option" where
  "questionPattern s =
     (if startsWithCI s ''question'' then digitsAfter (dropWs (drop 8 s)) else None)"

definition qPattern :: "string \<Rightarrow> string option" where
  "qPattern s = (if startsWithCI s ''q'' then digitsAfter (drop 1 s) else None)"

definition answerToPattern :: "string \<Rightarrow> string option" where
  "answerToPattern s = (if startsWithCI s ''answer to '' then digitsAfter (drop 10 s) else None)"

text \<open>\<open>/(question\s*\d+|q\d+|answer to \d+)/i.test(userInput)\<close>.\<close>

definition referencesQuestion :: "string \<Rightarrow> bool" where
  "referencesQuestion userInput =
     (searchFirst
        (\<lambda>s. case questionPattern s of
               Some d \<Rightarrow> Some d
             | None \<Rightarrow> (case qPattern s of Some d \<Rightarrow> Some d | None \<Rightarrow> answerToPattern s))
        userInput \<noteq> None)"

text \<open>The three \<open>match\<close> calls, each tried when the one before found nothing.\<close>

definition questionNumber :: "string \<Rightarrow> string option" where
  "questionNumber userInput =
     (case searchFirst questionPattern userInput of
        Some d \<Rightarrow> Some d
      | None \<Rightarrow>
          (case searchFirst qPattern userInput of
             Some d \<Rightarrow> Some d
           | None \<Rightarrow> searchFirst answerToPattern userInput))"

text \<open>
  \<open>userInput.match(/\b([A-D])\b/gi)\<close>: every letter A to D, in either case, that stands
  between two word boundaries; \<open>prev\<close> is the character before the position.
\<close>

fun answerLabels :: "char option \<Rightarrow> string \<Rightarrow> string list" where
  "answerLabels prev [] = []"
| "answerLabels prev (c # cs) =
     (if c \<in> set ''ABCDabcd'' \<and>
         \<not> (case prev of None \<Rightarrow> False | Some p \<Rightarrow> isWordChar p) \<and>
         \<not> (case cs of [] \<Rightarrow> False | n # rest \<Rightarrow> isWordChar n)
      then [c] # answerLabels (Some c) cs
      else answerLabels (Some c) cs)"

declare answerLabels.simps [simp del]

text \<open>\<open>[...new Set(xs)]\<close>: the elements in the order of their first occurrence.\<close>

fun uniqueFrom :: "'a list \<Rightarrow> 'a list \<Rightarrow> 'a list" where
  "uniqueFrom seen [] = []"
| "uniqueFrom seen (x # xs) =
     (if x \<in> set seen then uniqueFrom seen xs else x # uniqueFrom (seen @ [x]) xs)"

definition uniqueLabels :: "string \<Rightarrow> string list" where
  "uniqueLabels userInput = uniqueFrom [] (map toUpperCase (answerLabels None userInput))"

text \<open>\<open>s.charCodeAt(0) - 65\<close> for a string that starts with the character \<open>c\<close>.\<close>

definition codeMinus65 :: "char \<Rightarrow> int" where
  "codeMinus65 c = int (of_char c) - 65"

text \<open>
  \<open>correctIdx\<close>: \<open>-1\<close> when \<open>correct_answer\<close> is no string, and \<open>NaN\<close>, here \<open>None\<close>, when it is
  the empty string.
\<close>

definition correctIdx :: "QuizQuestion \<Rightarrow> int option" where
  "correctIdx q =
     (case correct_answer q of
        None \<Rightarrow> Some (- 1)
      | Some [] \<Rightarrow> None
      | Some (c # cs) \<Rightarrow> Some (codeMinus65 (toUpperChar c)))"

fun optionLines :: "nat \<Rightarrow> string list \<Rightarrow> string list" where
  "optionLines idx [] = []"
| "optionLines idx (opt # opts) = (fromCharCode (65 + idx) @ '') '' @ opt) # optionLines (Suc idx) opts"

text \<open>The loop over the labels: a clause for each label that is not the correct one and
  names an option that is not empty.\<close>

fun whyNot :: "int option \<Rightarrow> string list \<Rightarrow> string list \<Rightarrow> string" where
  "whyNot correct opts [] = []"
| "whyNot correct opts (label # labels) =
     (let idx = (case label of [] \<Rightarrow> - 66 | c # cs \<Rightarrow> codeMinus65 c) in
      (if Some idx \<noteq> correct \<and> 0 \<le> idx \<and> nat idx < length opts \<and> opts ! nat idx \<noteq> []
       then nl @ nl @ ''Option '' @ label @ '') '' @ opts ! nat idx @
            '' is not correct because it does not satisfy the requirements of the question or is not the best answer.''
       else [])
      @ whyNot correct opts labels)"

definition questionReply :: "int \<Rightarrow> QuizQuestion \<Rightarrow> string list \<Rightarrow> string \<Rightarrow> string" where
  "questionReply qNum q opts userInput =
     ''Q'' @ showInt (qNum + 1) @ '': '' @ interp (question q) @ nl @ nl @
     ''Options:'' @ nl @ js_join nl (optionLines 0 opts) @ nl @ nl @
     ''Correct Answer: '' @ interp (correct_answer q) @ nl @ nl @
     ''Explanation: '' @ interp (explanation q) @
     whyNot (correctIdx q) opts (uniqueLabels userInput)"

definition noSuchQuestion :: "int \<Rightarrow> string" where
  "noSuchQuestion qNum =
     ''Sorry, your current quiz does not have a question '' @ showInt (qNum + 1) @
     ''. Please check the question number and try again.''"

text \<open>\<open>quiz.questions && quiz.questions[qNum]\<close>.\<close>

definition questionAt :: "QuizSession \<Rightarrow> int \<Rightarrow> QuizQuestion option" where
  "questionAt quiz qNum =
     (case questions quiz of
        None \<Rightarrow> None
      | Some qs \<Rightarrow> if 0 \<le> qNum \<and> nat qNum < length qs then Some (qs ! nat qNum) else None)"

subsection \<open>A turn\<close>

definition fallbackPreferences :: UserPreferences where
  "fallbackPreferences =
     \<lparr> difficulty = Some ''beginner'',
       preferred_languages = Some [''javascript'', ''react'', ''typescript''],
       learning_style = Some ''hands-on'',
       explanation_mode = Some ''simple'',
       topics_of_interest =
         Some [''web-development'', ''frontend'', ''javascript-fundamentals'', ''react-hooks''],
       session_count = Some 1,
       preferred_pace = Some ''moderate'' \<rparr>"

definition fallbackResponse :: "string" where
  "fallbackResponse =
     (''I'' @ sq @ ''m here to help you learn programming! You can ask me to:'' @ nl @
       nl @
       [CHR 0xE2, CHR 0x80, CHR 0xA2] @ '' **Review your code** - Just paste it and I'' @ sq @ ''ll provide feedback'' @ nl @
       [CHR 0xE2, CHR 0x80, CHR 0xA2] @ '' **Explain concepts** - Ask about any programming topic'' @ nl @
       [CHR 0xE2, CHR 0x80, CHR 0xA2] @ '' **Create quizzes** - Test your knowledge with interactive questions'' @ nl @
       [CHR 0xE2, CHR 0x80, CHR 0xA2] @ '' **Track progress** - See your learning journey and improvements'' @ nl @
       nl @
       ''What would you like to work on today?'')"


text \<open>The first statement of \<open>executeGraph\<close>: the preferences of the user.\<close>

definition loadPreferences :: "Env \<Rightarrow> string \<Rightarrow> UserPreferences option" where
  "loadPreferences env userId =
     (case getUserById env userId of
        LookupThrows \<Rightarrow> Some fallbackPreferences
      | LookupUser None \<Rightarrow> None
      | LookupUser (Some user) \<Rightarrow> preferences user)"

text \<open>
  The condition of the quiz follow-up and the number it extracts: the context, its quiz
  and the digits, when the turn is a follow-up.
\<close>

definition quizFollowUp :: "Context option \<Rightarrow> string \<Rightarrow> (Context \<times> QuizSession \<times> string) option" where
  "quizFollowUp currentContext userInput =
     (case currentContext of
        None \<Rightarrow> None
      | Some cc \<Rightarrow>
          (case quizContext cc of
             None \<Rightarrow> None
           | Some quiz \<Rightarrow>
               if referencesQuestion userInput
               then (case questionNumber userInput of
                       None \<Rightarrow> None
                     | Some digits \<Rightarrow> Some (cc, quiz, digits))
               else None))"

text \<open>
  The body of the follow-up.  The reply is built before the clock is read; building it
  calls \<open>q.options.map\<close>, which throws when the question has no \<open>options\<close>.
\<close>

definition answerFollowUp ::
  "Env \<Rightarrow> Context \<Rightarrow> QuizSession \<Rightarrow> string \<Rightarrow> string \<Rightarrow> (JsError + GraphResult) \<times> Effect list" where
  "answerFollowUp env cc quiz digits userInput =
     (let qNum = int (parseInt digits) - 1 in
      case questionAt quiz qNum of
        Some q \<Rightarrow>
          (case options q of
             None \<Rightarrow> (Inl TypeError, [])
           | Some opts \<Rightarrow>
               (Inr \<lparr> response = questionReply qNum q opts userInput,
                      current_node = QuizGenerator,
                      available_transitions = allNodes,
                      session_context = cc,
                      metadata = \<lparr> md_timestamp = isoNow env 0, iteration_count = 0 \<rparr> \<rparr>,
                [ReadClock]))
      | None \<Rightarrow>
          (Inr \<lparr> response = noSuchQuestion qNum,
                 current_node = QuizGenerator,
                 available_transitions = allNodes,
                 session_context = cc,
                 metadata = \<lparr> md_timestamp = isoNow env 0, iteration_count = 0 \<rparr> \<rparr>,
           [ReadClock]))"

text \<open>
  The initial state.  The object literal of its context lists \<open>user_preferences\<close>,
  \<open>conversation_history\<close>, \<open>available_transitions\<close> and \<open>user_input\<close>, and then spreads the
  current context over them.
\<close>

definition initialState ::
  "Env \<Rightarrow> UserPreferences option \<Rightarrow> string \<Rightarrow> string \<Rightarrow> string \<Rightarrow> Context option \<Rightarrow> TutorState" where
  "initialState env userPreferences userId sessionId userInput currentContext =
     \<lparr> st_current_node = Router,
       st_user_id = userId,
       st_session_id = sessionId,
       st_context =
         spread
           (emptyContext
              \<lparr> user_preferences := userPreferences,
                conversation_history :=
                  Some (case currentContext of
                          None \<Rightarrow> HistoryArray []
                        | Some cc \<Rightarrow>
                            (case conversation_history cc of
                               Some (HistoryArray h) \<Rightarrow> HistoryArray h
                             | _ \<Rightarrow> HistoryArray [])),
                ctx_available_transitions := Some [],
                user_input := Some userInput \<rparr>)
           (case currentContext of None \<Rightarrow> emptyContext | Some cc \<Rightarrow> cc),
       st_metadata = \<lparr> md_timestamp = isoNow env 0, iteration_count = 0 \<rparr> \<rparr>"

text \<open>The \<open>switch\<close> over the target node.\<close>

definition executeNode :: "Env \<Rightarrow> NodeType \<Rightarrow> TutorState \<Rightarrow> (JsError + string) \<times> Effect list" where
  "executeNode env targetNode state =
     (case targetNode of
        CodeFeedback \<Rightarrow> executeCodeFeedbackNode env state
      | ConceptExplainer \<Rightarrow> executeConceptExplainerNode env state
      | QuizGenerator \<Rightarrow> executeQuizGeneratorNode env state
      | MistakeAnalyzer \<Rightarrow> executeMistakeAnalyzerNode env state
      | Router \<Rightarrow> executeConceptExplainerNode env state)"

text \<open>
  \<open>saveSessionState\<close>: the update of the chat session inside a \<open>try\<close> whose \<open>catch\<close> only
  logs.
\<close>

definition sessionUpdate :: "TutorState \<Rightarrow> ChatSessionUpdate" where
  "sessionUpdate state =
     \<lparr> upd_current_node = st_current_node state,
       upd_context = st_context state,
       upd_conversation_history = conversation_history (st_context state),
       upd_available_transitions = allNodes \<rparr>"

definition saveSessionState :: "Env \<Rightarrow> string \<Rightarrow> TutorState \<Rightarrow> (JsError + unit) \<times> Effect list" where
  "saveSessionState env sessionId state =
     (case updateChatSession env sessionId (sessionUpdate state) of
        WriteReturns \<Rightarrow> Inr ()
      | WriteThrows \<Rightarrow> Inr (),
      [UpdateChatSession sessionId (sessionUpdate state)])"

text \<open>
  The turn after the follow-up: routing, the executor, the new history entry, the save
  and the result.  \<open>conversation_history.push\<close> throws when the history is no array.
\<close>

definition runTurn ::
  "Env \<Rightarrow> UserPreferences option \<Rightarrow> string \<Rightarrow> string \<Rightarrow> string \<Rightarrow> Context option
     \<Rightarrow> (JsError + GraphResult) \<times> Effect list" where
  "runTurn env userPreferences userId sessionId userInput currentContext =
     (let state0 = initialState env userPreferences userId sessionId userInput currentContext;
          targetNode = determineNode userInput (st_context state0);
          state1 = state0 \<lparr> st_current_node := targetNode \<rparr>
      in case executeNode env targetNode state1 of
           (Inl e, calls) \<Rightarrow> (Inl e, ReadClock # calls)
         | (Inr reply, calls) \<Rightarrow>
             (case conversation_history (st_context state1) of
                Some (HistoryArray h) \<Rightarrow>
                  (let entry = \<lparr> h_timestamp = isoNow env 1, h_user_input = userInput,
                                  h_node = nodeTag targetNode, h_response = reply \<rparr>;
                       state2 = state1 \<lparr> st_context := (st_context state1)
                                  \<lparr> node_output := Some reply,
                                    conversation_history := Some (HistoryArray (h @ [entry])) \<rparr> \<rparr>
                   in case saveSessionState env sessionId state2 of
                        (Inl e, saved) \<Rightarrow> (Inl e, ReadClock # calls @ ReadClock # saved)
                      | (Inr u, saved) \<Rightarrow>
                          (Inr \<lparr> response = reply,
                                 current_node = targetNode,
                                 available_transitions = allNodes,
                                 session_context = st_context state2,
                                 metadata = st_metadata state2 \<rparr>,
                           ReadClock # calls @ ReadClock # saved))
              | _ \<Rightarrow> (Inl TypeError, ReadClock # calls)))"

text \<open>The body of the \<open>try\<close> of \<open>executeGraph\<close>.\<close>

definition executeGraph_try ::
  "Env \<Rightarrow> string \<Rightarrow> string \<Rightarrow> string \<Rightarrow> Context option \<Rightarrow> (JsError + GraphResult) \<times> Effect list" where
  "executeGraph_try env userId sessionId userInput currentContext =
     (let userPreferences = loadPreferences env userId in
      case (case quizFollowUp currentContext userInput of
              Some (cc, quiz, digits) \<Rightarrow> answerFollowUp env cc quiz digits userInput
            | None \<Rightarrow> runTurn env userPreferences userId sessionId userInput currentContext) of
        (outcome, calls) \<Rightarrow> (outcome, GetUserById userId # calls))"

text \<open>
  \<open>LangGraphManager.executeGraph\<close>: the \<open>catch\<close> answers every exception of the body with
  the general reply; its clock reading is the next one after those of the body.
\<close>

definition clockReadings :: "Effect list \<Rightarrow> nat" where
  "clockReadings calls = length (filter (\<lambda>c. c = ReadClock) calls)"

definition fallbackResult :: "Env \<Rightarrow> string \<Rightarrow> nat \<Rightarrow> GraphResult" where
  "fallbackResult env userInput k =
     \<lparr> response = fallbackResponse,
       current_node = ConceptExplainer,
       available_transitions = allNodes,
       session_context = emptyContext \<lparr> user_input := Some userInput,
                                        conversation_history := Some (HistoryArray []) \<rparr>,
       metadata = \<lparr> md_timestamp = isoNow env k, iteration_count = 0 \<rparr> \<rparr>"

definition executeGraph ::
  "Env \<Rightarrow> string \<Rightarrow> string \<Rightarrow> string \<Rightarrow> Context option \<Rightarrow> (JsError + GraphResult) \<times> Effect list" where
  "executeGraph env userId sessionId userInput currentContext =
     (case executeGraph_try env userId sessionId userInput currentContext of
        (Inr result, calls) \<Rightarrow> (Inr result, calls)
      | (Inl e, calls) \<Rightarrow>
          (Inr (fallbackResult env userInput (clockReadings calls)), calls @ [ReadClock]))"

subsection \<open>Turns used to run the orchestrator\<close>

text \<open>
  A collaborator that answers with the instruction it was sent, so that the reply of a
  turn shows what the executor read.
\<close>

definition echoEnv :: Env where
  "echoEnv = \<lparr> getUserById = (\<lambda>u. LookupUser None),
     complete = (\<lambda>r. CompletionContent (Some (content r))),
     jsonParse = (\<lambda>t. None), dateNow = (\<lambda>k. 1700000000000),
     isoNow = exampleClock, updateChatSession = (\<lambda>i u. WriteReturns) \<rparr>"

text \<open>The quiz session that is stored when the generation of its questions failed.\<close>

definition failedQuiz :: QuizSession where
  "failedQuiz =
     \<lparr> s_id = ''s2'', user_id = ''u1'',
       questions = Some (generateQuizQuestions throwingEnv ''closures'' 5 ''u1'' None),
       answers = [], score = 0, total_questions = 5, completed = False, s_time_taken = 0,
       created_at = ''t0'', completed_at = None \<rparr>"

definition withQuiz :: "QuizSession \<Rightarrow> Context" where
  "withQuiz quiz = emptyContext \<lparr> quizContext := Some quiz \<rparr>"

text \<open>
  The context that a first turn with the input \<open>explain closures\<close> leaves in the session,
  and a context whose history is \<open>null\<close>.
\<close>

definition savedContext :: Context where
  "savedContext =
     emptyContext
       \<lparr> conversation_history := Some (HistoryArray
           [\<lparr> h_timestamp = exampleClock 1, h_user_input = ''explain closures'',
              h_node = ''concept-explainer'',
              h_response = conceptExplainerPrompt ''beginner'' ''JavaScript'' ''hands-on''
                             (Some ''explain closures'') \<rparr>]),
         ctx_available_transitions := Some [],
         user_input := Some ''explain closures'',
         node_output := Some (conceptExplainerPrompt ''beginner'' ''JavaScript'' ''hands-on''
                                (Some ''explain closures'')) \<rparr>"

definition nullHistory :: Context where
  "nullHistory = emptyContext \<lparr> conversation_history := Some HistoryNull \<rparr>"

section \<open>Upgrade-tier flow of the client\<close>
















section \<open>Properties\<close>

lemma startsWith_prefix: "startsWith s k = prefix k s"
  by (induction s k rule: startsWith.induct) auto

lemma js_includes_sublist: "js_includes s k = sublist k s"
proof (induction s)
  case Nil
  show ?case by (cases k) auto
next
  case (Cons c cs)
  then show ?case by (simp add: startsWith_prefix sublist_Cons_right)
qed

lemma toLowerChar_code:
  "toLowerChar c =
     (if c \<in> set ''ABCDEFGHIJKLMNOPQRSTUVWXYZ'' then char_of (of_char c + (32::nat)) else c)"
  by (auto simp: toLowerChar_def char_of_def bit_Suc_0_iff)

lemma lower_alphabet:
  "toLowerCase ''ABCDEFGHIJKLMNOPQRSTUVWXYZ'' = ''abcdefghijklmnopqrstuvwxyz''"
  "toLowerCase ''abcdefghijklmnopqrstuvwxyz 0123456789'' = ''abcdefghijklmnopqrstuvwxyz 0123456789''"
  by (simp_all add: toLowerCase.simps toLowerChar_def)

lemma route_upper:
  "determineNode ''Please DEBUG this'' x = CodeFeedback"
  "determineNode ''A QUIZ about my Code'' x = CodeFeedback"
  "determineNode ''Practice TEST on my Progress'' x = QuizGenerator"
  "determineNode ''TRACK my Mistakes'' x = MistakeAnalyzer"
  "determineNode ''Explain Closures'' x = ConceptExplainer"
  by (simp_all add: determineNode_def toLowerCase.simps toLowerChar_def)

lemma route_kelvin:
  "determineNode (''trac'' @ [CHR 0xE2, CHR 0x84, CHR 0xAA] @ '' my work'') x = MistakeAnalyzer"
  "toLowerCase (''trac'' @ [CHR 0xE2, CHR 0x84, CHR 0xAA] @ '' my work'') = ''track my work''"
  by (simp_all add: determineNode_def toLowerCase.simps toLowerChar_def)

lemma route_dotted:
  "determineNode (''QU'' @ [CHR 0xC4, CHR 0xB0] @ ''Z'') x = ConceptExplainer"
  "toLowerCase (''QU'' @ [CHR 0xC4, CHR 0xB0] @ ''Z'') = ''qui'' @ [CHR 0xCC, CHR 0x87] @ ''z''"
  by (simp_all add: determineNode_def toLowerCase.simps toLowerChar_def)

text \<open>
  C2.  The mode router is a total function of the input string alone: with the input in
  lower case, it answers code-feedback when one of code, debug, review, feedback occurs
  in it, otherwise quiz-generator when one of quiz, test, question, practice occurs,
  otherwise mistake-analyzer when one of progress, mistake, track, analysis occurs,
  otherwise concept-explainer; the empty string goes to concept-explainer.  The lower
  case is that of JavaScript on the characters that matter to the search: a capital
  ASCII letter becomes the letter 32 codes further, the Kelvin sign becomes \<open>k\<close>, the
  capital I with dot above becomes \<open>i\<close> and a combining dot, and all else stays.  So
  keywords in capitals are found, a keyword of an earlier group wins over one of a later
  group, and the Kelvin sign completes the keyword track.
\<close>

theorem determineNode_first_group_wins:
  "determineNode userInput ctx =
     (if sublist ''code'' (toLowerCase userInput) \<or> sublist ''debug'' (toLowerCase userInput) \<or>
         sublist ''review'' (toLowerCase userInput) \<or> sublist ''feedback'' (toLowerCase userInput)
      then CodeFeedback
      else if sublist ''quiz'' (toLowerCase userInput) \<or> sublist ''test'' (toLowerCase userInput) \<or>
         sublist ''question'' (toLowerCase userInput) \<or> sublist ''practice'' (toLowerCase userInput)
      then QuizGenerator
      else if sublist ''progress'' (toLowerCase userInput) \<or> sublist ''mistake'' (toLowerCase userInput) \<or>
         sublist ''track'' (toLowerCase userInput) \<or> sublist ''analysis'' (toLowerCase userInput)
      then MistakeAnalyzer
      else ConceptExplainer)
   \<and> determineNode [] ctx = ConceptExplainer
   \<and> toLowerCase [] = []
   \<and> toLowerCase (c # cs) =
       (if c = CHR 0xE2 \<and> take 2 cs = [CHR 0x84, CHR 0xAA]
        then CHR ''k'' # toLowerCase (drop 2 cs)
        else if c = CHR 0xC4 \<and> take 1 cs = [CHR 0xB0]
        then CHR ''i'' # CHR 0xCC # CHR 0x87 # toLowerCase (drop 1 cs)
        else (if c \<in> set ''ABCDEFGHIJKLMNOPQRSTUVWXYZ'' then char_of (of_char c + (32::nat)) else c)
               # toLowerCase cs)
   \<and> toLowerCase ''ABCDEFGHIJKLMNOPQRSTUVWXYZ'' = ''abcdefghijklmnopqrstuvwxyz''
   \<and> toLowerCase ''abcdefghijklmnopqrstuvwxyz 0123456789'' = ''abcdefghijklmnopqrstuvwxyz 0123456789''
   \<and> determineNode ''Please DEBUG this'' ctx = CodeFeedback
   \<and> determineNode ''A QUIZ about my Code'' ctx = CodeFeedback
   \<and> determineNode ''Practice TEST on my Progress'' ctx = QuizGenerator
   \<and> determineNode ''TRACK my Mistakes'' ctx = MistakeAnalyzer
   \<and> determineNode ''Explain Closures'' ctx = ConceptExplainer
   \<and> determineNode (''trac'' @ [CHR 0xE2, CHR 0x84, CHR 0xAA] @ '' my work'') ctx = MistakeAnalyzer
   \<and> determineNode (''QU'' @ [CHR 0xC4, CHR 0xB0] @ ''Z'') ctx = ConceptExplainer"
proof -
  have a: "determineNode userInput ctx =
     (if sublist ''code'' (toLowerCase userInput) \<or> sublist ''debug'' (toLowerCase userInput) \<or>
         sublist ''review'' (toLowerCase userInput) \<or> sublist ''feedback'' (toLowerCase userInput)
      then CodeFeedback
      else if sublist ''quiz'' (toLowerCase userInput) \<or> sublist ''test'' (toLowerCase userInput) \<or>
         sublist ''question'' (toLowerCase userInput) \<or> sublist ''practice'' (toLowerCase userInput)
      then QuizGenerator
      else if sublist ''progress'' (toLowerCase userInput) \<or> sublist ''mistake'' (toLowerCase userInput) \<or>
         sublist ''track'' (toLowerCase userInput) \<or> sublist ''analysis'' (toLowerCase userInput)
      then MistakeAnalyzer
      else ConceptExplainer)"
    by (simp add: determineNode_def js_includes_sublist)
  have b: "determineNode [] ctx = ConceptExplainer"
    by (simp add: determineNode_def toLowerCase.simps)
  have c: "toLowerCase (c # cs) =
       (if c = CHR 0xE2 \<and> take 2 cs = [CHR 0x84, CHR 0xAA]
        then CHR ''k'' # toLowerCase (drop 2 cs)
        else if c = CHR 0xC4 \<and> take 1 cs = [CHR 0xB0]
        then CHR ''i'' # CHR 0xCC # CHR 0x87 # toLowerCase (drop 1 cs)
        else (if c \<in> set ''ABCDEFGHIJKLMNOPQRSTUVWXYZ'' then char_of (of_char c + (32::nat)) else c)
               # toLowerCase cs)"
    unfolding toLowerChar_code [symmetric] by (rule toLowerCase.simps)
  from a b c lower_alphabet route_upper [of ctx] route_kelvin(1) [of ctx] route_dotted(1) [of ctx]
  show ?thesis by (simp only: toLowerCase.simps(1) simp_thms)
qed

subsection \<open>Grading a submission\<close>

lemma detailAnswers_graded:
  "detailAnswers qs clock k submitted sc = (ds, sc') \<Longrightarrow>
     sc' = sc + int (length (filter (gradedCorrect qs) submitted)) \<and>
     length ds = length submitted \<and>
     map qa_question_id ds = map question_id submitted \<and>
     map qa_user_answer ds = map user_answer submitted \<and>
     map (explainWrong qs) (filter (\<lambda>a. is_correct a \<noteq> Some True) ds) =
       map (explanationFor qs) (filter (\<lambda>a. \<not> gradedCorrect qs a) submitted)"
proof (induction submitted arbitrary: k sc ds sc')
  case Nil
  then show ?case by simp
next
  case (Cons a rest)
  obtain d sc1 where g: "gradeAnswer qs (clock k) a sc = (d, sc1)"
    by (cases "gradeAnswer qs (clock k) a sc")
  obtain ds1 sc2 where r: "detailAnswers qs clock (Suc k) rest sc1 = (ds1, sc2)"
    by (cases "detailAnswers qs clock (Suc k) rest sc1")
  from Cons.prems g r have eq: "ds = d # ds1" "sc' = sc2" by simp_all
  note ih = Cons.IH [OF r]
  from g have d1: "sc1 = (if gradedCorrect qs a then sc + 1 else sc)"
    and d2: "(is_correct d = Some True) = gradedCorrect qs a"
    and d3: "explainWrong qs d = explanationFor qs a"
    and d4: "qa_question_id d = question_id a" "qa_user_answer d = user_answer a"
    by (auto simp: gradeAnswer_def gradedCorrect_def foundQuestion_def explainWrong_def
        explanationFor_def Let_def split: option.splits)
  show ?case using ih eq d1 d2 d3 d4 by simp
qed

lemmas example_defs = exampleTable_def exampleQuestions_def exampleQuestion_def
  exampleAnswers_def exampleAnswer_def getUserQuizSessions_def

lemma example_found:
  "find (\<lambda>s. s_id s = ''s1'') (getUserQuizSessions exampleTable ''u1'') = Some (hd exampleTable)"
  by (simp add: example_defs)

lemma submit_response:
  assumes "reqUser = Some userId" and "userId \<noteq> []"
    and "find (\<lambda>s. s_id s = sessionId) (getUserQuizSessions db userId) = Some session"
    and "qs = (case questions session of None \<Rightarrow> [] | Some l \<Rightarrow> l)"
  shows "fst (submitAnswers db clock reqUser sessionId submitted) =
      Success \<lparr> r_score = int (length (filter (gradedCorrect qs) submitted)),
                r_total_questions = length qs,
                wrong_explanations =
                  map (explanationFor qs) (filter (\<lambda>a. \<not> gradedCorrect qs a) submitted) \<rparr>"
proof -
  obtain ds sc where r: "detailAnswers qs clock 0 submitted 0 = (ds, sc)"
    by (cases "detailAnswers qs clock 0 submitted 0")
  from detailAnswers_graded [OF r] assms r show ?thesis
    by (simp add: submitAnswers_def Let_def)
qed

text \<open>
  The handler's test and the rule of the specification agree on an answer as soon as
  every question has an id and a correct answer, or the answer has a question id and a
  user answer.
\<close>

lemma find_SomeD: "find P xs = Some x \<Longrightarrow> x \<in> set xs \<and> P x"
  by (induction xs) (auto split: if_splits)

lemma grading_agrees:
  assumes "(\<forall>q \<in> set qs. q_id q \<noteq> None \<and> correct_answer q \<noteq> None) \<or>
           (question_id a \<noteq> None \<and> user_answer a \<noteq> None)"
  shows "gradedCorrect qs a = answeredCorrectly qs a"
    and "explanationFor qs a = explanationOf qs a"
proof -
  have same: "foundQuestion qs a = questionOf qs a"
  proof (cases "question_id a")
    case None
    with assms have "\<forall>q \<in> set qs. q_id q \<noteq> None" by auto
    then have "find (\<lambda>q. q_id q = None) qs = None" by (simp add: find_None_iff)
    with None show ?thesis by (simp add: foundQuestion_def questionOf_def)
  next
    case (Some i)
    then show ?thesis by (simp add: foundQuestion_def questionOf_def)
  qed
  show "explanationFor qs a = explanationOf qs a"
    by (simp add: explanationFor_def explanationOf_def same)
  show "gradedCorrect qs a = answeredCorrectly qs a"
  proof (cases "questionOf qs a")
    case None
    then show ?thesis by (simp add: gradedCorrect_def answeredCorrectly_def same)
  next
    case (Some q)
    then have "q \<in> set qs"
      by (auto simp: questionOf_def split: option.splits dest: find_SomeD)
    with assms have "correct_answer q \<noteq> None \<or> user_answer a \<noteq> None" by auto
    with Some show ?thesis
      by (auto simp: gradedCorrect_def answeredCorrectly_def same split: option.splits)
  qed
qed

text \<open>
  So for a quiz whose questions all have an id and a correct answer, and for any quiz
  when every submitted answer has a question id and a user answer, the handler answers
  with the score, the total and the explanations that the specification words.
\<close>

lemma submit_response_as_specified:
  assumes "reqUser = Some userId" and "userId \<noteq> []"
    and "find (\<lambda>s. s_id s = sessionId) (getUserQuizSessions db userId) = Some session"
    and "qs = (case questions session of None \<Rightarrow> [] | Some l \<Rightarrow> l)"
    and "(\<forall>q \<in> set qs. q_id q \<noteq> None \<and> correct_answer q \<noteq> None) \<or>
         (\<forall>a \<in> set submitted. question_id a \<noteq> None \<and> user_answer a \<noteq> None)"
  shows "fst (submitAnswers db clock reqUser sessionId submitted) =
      Success \<lparr> r_score = int (length (filter (answeredCorrectly qs) submitted)),
                r_total_questions = length qs,
                wrong_explanations =
                  map (explanationOf qs) (filter (\<lambda>a. \<not> answeredCorrectly qs a) submitted) \<rparr>"
proof -
  have ag: "gradedCorrect qs a = answeredCorrectly qs a \<and> explanationFor qs a = explanationOf qs a"
    if "a \<in> set submitted" for a
    using grading_agrees [of qs a] assms(5) that by blast
  have f1: "filter (gradedCorrect qs) submitted = filter (answeredCorrectly qs) submitted"
    by (rule filter_cong) (simp_all add: ag)
  have f2: "filter (\<lambda>a. \<not> gradedCorrect qs a) submitted = filter (\<lambda>a. \<not> answeredCorrectly qs a) submitted"
    by (rule filter_cong) (simp_all add: ag)
  have f3: "map (explanationFor qs) (filter (\<lambda>a. \<not> answeredCorrectly qs a) submitted) =
            map (explanationOf qs) (filter (\<lambda>a. \<not> answeredCorrectly qs a) submitted)"
    by (rule map_cong) (simp_all add: ag)
  show ?thesis
    unfolding submit_response [OF assms(1-4)] f1 f2 f3 ..
qed

text \<open>
  The quiz of five questions, with two answers that match and three that do not (one
  differs in case, one in a trailing blank, one is another letter): score 2, three
  explanations.
\<close>

lemma example_graded:
  "filter (answeredCorrectly exampleQuestions) exampleAnswers =
     [exampleAnswer ''1'' ''a'', exampleAnswer ''4'' ''d'']"
  "filter (\<lambda>a. \<not> answeredCorrectly exampleQuestions a) exampleAnswers =
     [exampleAnswer ''2'' ''B'', exampleAnswer ''3'' ''c '', exampleAnswer ''5'' ''b'']"
  by (simp_all add: example_defs answeredCorrectly_def questionOf_def)

lemma example_submission:
  "fst (submitAnswers exampleTable exampleClock (Some ''u1'') ''s1'' exampleAnswers) =
     Success \<lparr> r_score = 2, r_total_questions = 5,
       wrong_explanations =
         [\<lparr> we_question = Some ''Question 2'', we_correct_answer = Some ''b'',
             we_explanation = Some ''Because b'' \<rparr>,
          \<lparr> we_question = Some ''Question 3'', we_correct_answer = Some ''c'',
             we_explanation = Some ''Because c'' \<rparr>,
          \<lparr> we_question = Some ''Question 5'', we_correct_answer = Some ''a'',
             we_explanation = Some ''Because a'' \<rparr>] \<rparr>"
proof -
  have ne: "''u1'' \<noteq> []" by simp
  have wf: "(\<forall>q \<in> set exampleQuestions. q_id q \<noteq> None \<and> correct_answer q \<noteq> None) \<or>
         (\<forall>a \<in> set exampleAnswers. question_id a \<noteq> None \<and> user_answer a \<noteq> None)"
    by (simp add: example_defs)
  have qs: "exampleQuestions = (case questions (hd exampleTable) of None \<Rightarrow> [] | Some l \<Rightarrow> l)"
    by (simp add: exampleTable_def)
  show ?thesis
    unfolding submit_response_as_specified [OF refl ne example_found qs wf] example_graded
    by (simp add: example_defs explanationOf_def questionOf_def)
qed

subsection \<open>The completed flag\<close>

lemma applyUpdate_submit:
  "applyUpdate (noUpdate \<lparr> set_answers := Some ds, set_score := Some sc,
       set_completed := Some True, set_completed_at := Some t \<rparr>) s =
     s \<lparr> answers := ds, score := sc, completed := True, completed_at := Some t \<rparr>"
  by (simp add: applyUpdate_def noUpdate_def)

lemma markSubmitted_keeps [simp]:
  "s_id (markSubmitted sid ds sc t s) = s_id s"
  "user_id (markSubmitted sid ds sc t s) = user_id s"
  "questions (markSubmitted sid ds sc t s) = questions s"
  "total_questions (markSubmitted sid ds sc t s) = total_questions s"
  by (simp_all add: markSubmitted_def)

lemma markSubmitted_monotone: "completed s \<Longrightarrow> completed (markSubmitted sid ds sc t s)"
  by (simp add: markSubmitted_def)

lemma find_user_session_map:
  assumes "\<And>s. s_id (f s) = s_id s" and "\<And>s. user_id (f s) = user_id s"
  shows "find (\<lambda>s. s_id s = sid) (getUserQuizSessions (map f db) u) =
         map_option f (find (\<lambda>s. s_id s = sid) (getUserQuizSessions db u))"
  by (induction db) (simp_all add: getUserQuizSessions_def assms)

lemma submit_table:
  assumes "reqUser = Some userId" and "userId \<noteq> []"
    and "find (\<lambda>s. s_id s = sessionId) (getUserQuizSessions db userId) = Some session"
  shows "\<exists>ds d. fst (submitAnswers db clock reqUser sessionId submitted) = Success d \<and>
     map qa_question_id ds = map question_id submitted \<and>
     map qa_user_answer ds = map user_answer submitted \<and>
     snd (submitAnswers db clock reqUser sessionId submitted) =
       map (markSubmitted sessionId ds (r_score d) (clock (length submitted))) db"
proof -
  let ?qs = "case questions session of None \<Rightarrow> [] | Some l \<Rightarrow> l"
  obtain ds sc where r: "detailAnswers ?qs clock 0 submitted 0 = (ds, sc)"
    by (cases "detailAnswers ?qs clock 0 submitted 0")
  from detailAnswers_graded [OF r]
  have m: "map qa_question_id ds = map question_id submitted"
    "map qa_user_answer ds = map user_answer submitted" by simp_all
  have u: "updateQuizSession db sessionId (noUpdate \<lparr> set_answers := Some ds, set_score := Some sc,
       set_completed := Some True, set_completed_at := Some (clock (length submitted)) \<rparr>)
     = map (markSubmitted sessionId ds sc (clock (length submitted))) db"
    unfolding updateQuizSession_def applyUpdate_submit markSubmitted_def ..
  from assms r have "fst (submitAnswers db clock reqUser sessionId submitted) =
      Success \<lparr> r_score = sc, r_total_questions = length ?qs,
        wrong_explanations = map (explainWrong ?qs) (filter (\<lambda>a. is_correct a \<noteq> Some True) ds) \<rparr>"
    by (simp add: submitAnswers_def Let_def)
  moreover from assms r u have "snd (submitAnswers db clock reqUser sessionId submitted) =
       map (markSubmitted sessionId ds sc (clock (length submitted))) db"
    by (simp add: submitAnswers_def Let_def)
  ultimately show ?thesis using m by auto
qed

lemma submit_refused:
  "(case fst (submitAnswers db clock reqUser sessionId submitted) of
      Success d \<Rightarrow> True
    | _ \<Rightarrow> snd (submitAnswers db clock reqUser sessionId submitted) = db)"
  by (simp add: submitAnswers_def Let_def split: option.splits prod.splits)

lemma submit_found_or_refused:
  "(\<exists>userId session. reqUser = Some userId \<and> userId \<noteq> [] \<and>
       find (\<lambda>s. s_id s = sessionId) (getUserQuizSessions db userId) = Some session)
   \<or> snd (submitAnswers db clock reqUser sessionId submitted) = db"
  by (auto simp: submitAnswers_def split: option.splits)

lemma submit_monotone:
  "length (snd (submitAnswers db clock reqUser sessionId submitted)) = length db \<and>
   (\<forall>i < length db. completed (db ! i) \<longrightarrow>
       completed (snd (submitAnswers db clock reqUser sessionId submitted) ! i))"
proof -
  from submit_found_or_refused [of reqUser sessionId db clock submitted]
  show ?thesis
  proof
    assume "\<exists>userId session. reqUser = Some userId \<and> userId \<noteq> [] \<and>
       find (\<lambda>s. s_id s = sessionId) (getUserQuizSessions db userId) = Some session"
    then obtain userId session where f: "reqUser = Some userId" "userId \<noteq> []"
      "find (\<lambda>s. s_id s = sessionId) (getUserQuizSessions db userId) = Some session" by blast
    from submit_table [OF f, of clock submitted] obtain ds sc where
      "snd (submitAnswers db clock reqUser sessionId submitted) =
         map (markSubmitted sessionId ds sc (clock (length submitted))) db" by blast
    then show ?thesis by (simp add: markSubmitted_monotone)
  next
    assume "snd (submitAnswers db clock reqUser sessionId submitted) = db"
    then show ?thesis by simp
  qed
qed

lemma patch_rows:
  "length (patchSession db sid u) = length db \<and>
   (\<forall>i < length db.
      patchSession db sid u ! i = (if s_id (db ! i) = sid then applyUpdate u (db ! i) else db ! i))"
  by (simp add: patchSession_def updateQuizSession_def)

lemma applyUpdate_fields:
  "completed (applyUpdate u s) = (case set_completed u of None \<Rightarrow> completed s | Some v \<Rightarrow> v)"
  "answers (applyUpdate u s) = (case set_answers u of None \<Rightarrow> answers s | Some v \<Rightarrow> v)"
  "questions (applyUpdate u s) = (case set_questions u of None \<Rightarrow> questions s | Some v \<Rightarrow> v)"
  "total_questions (applyUpdate u s) =
     (case set_total_questions u of None \<Rightarrow> total_questions s | Some v \<Rightarrow> v)"
  by (simp_all add: applyUpdate_def split: option.splits)

lemma example_submit_two:
  "snd (submitAnswers exampleTable exampleClock (Some ''u1'') ''s1'' (take 2 exampleAnswers)) =
     [(hd exampleTable) \<lparr> answers :=
         [\<lparr> qa_question_id = Some ''1'', qa_user_answer = Some ''a'', is_correct = Some True,
             qa_time_taken = 0, timestamp = ''t1'' \<rparr>,
          \<lparr> qa_question_id = Some ''2'', qa_user_answer = Some ''B'', is_correct = Some False,
             qa_time_taken = 0, timestamp = ''t2'' \<rparr>],
        score := 1, completed := True, completed_at := Some ''t3'' \<rparr>]"
  by (simp add: submitAnswers_def example_defs gradeAnswer_def Let_def updateQuizSession_def
      applyUpdate_def noUpdate_def exampleClock_def showNat.simps digitChar_def)

lemma twoSessions_rows:
  "length twoSessions = 2" "twoSessions ! 0 = hd exampleTable" "twoSessions ! Suc 0 = otherSession"
  "s_id (hd exampleTable) = ''s1''" "s_id otherSession = ''s9''" "completed otherSession"
  "questions (hd exampleTable) = Some exampleQuestions" "total_questions (hd exampleTable) = 5"
  "find (\<lambda>s. s_id s = ''s1'') (getUserQuizSessions twoSessions ''u1'') = Some (hd exampleTable)"
  by (simp_all add: twoSessions_def exampleTable_def otherSession_def getUserQuizSessions_def)

text \<open>
  C7, as the program has it.  No submission turns \<open>completed\<close> from true to false on any
  row of the table, nor changes the number of rows; a submission that is refused leaves
  the table as it is.  A submission for a session of the requesting user is answered with
  a result; it sets \<open>completed\<close> on every row with the session's id, whatever it was, and
  stores there the returned score and one graded answer for each submitted answer, in the
  order of the submission and with the submitted \<open>question_id\<close> and \<open>user_answer\<close> (so as
  many answers as were submitted, not as many as there are questions); all other fields
  of these rows, the questions and \<open>total_questions\<close> among them, and all rows with another
  id stay as they were, so that a later submission is answered again, with the same
  \<open>total_questions\<close>.  The update route writes the fields that its request carries into
  the rows with the given id, \<open>completed\<close>, \<open>answers\<close>, \<open>questions\<close> and \<open>total_questions\<close>
  among them, and leaves the rows with another id as they were.
\<close>

theorem submit_completes_and_keeps_questions:
  assumes "db' = snd (submitAnswers db clock reqUser sessionId submitted)"
  shows "length db' = length db
     \<and> (\<forall>i < length db. completed (db ! i) \<longrightarrow> completed (db' ! i))
     \<and> (case fst (submitAnswers db clock reqUser sessionId submitted) of
           Success d \<Rightarrow> True
         | _ \<Rightarrow> db' = db)
     \<and> (\<forall>userId session.
          reqUser = Some userId \<and> userId \<noteq> [] \<and>
          find (\<lambda>s. s_id s = sessionId) (getUserQuizSessions db userId) = Some session \<longrightarrow>
          (\<exists>ds d d'.
             fst (submitAnswers db clock reqUser sessionId submitted) = Success d
           \<and> map qa_question_id ds = map question_id submitted
           \<and> map qa_user_answer ds = map user_answer submitted
           \<and> (\<forall>i < length db.
                db' ! i =
                  (if s_id (db ! i) = sessionId
                   then (db ! i) \<lparr> answers := ds, score := r_score d, completed := True,
                                   completed_at := Some (clock (length submitted)) \<rparr>
                   else db ! i))
           \<and> fst (submitAnswers db' clock' reqUser sessionId submitted') = Success d'
           \<and> r_total_questions d' = r_total_questions d))
     \<and> length (patchSession db sid u) = length db
     \<and> (\<forall>i < length db.
          patchSession db sid u ! i = (if s_id (db ! i) = sid then applyUpdate u (db ! i) else db ! i))
     \<and> completed (applyUpdate u s) = (case set_completed u of None \<Rightarrow> completed s | Some v \<Rightarrow> v)
     \<and> answers (applyUpdate u s) = (case set_answers u of None \<Rightarrow> answers s | Some v \<Rightarrow> v)
     \<and> questions (applyUpdate u s) = (case set_questions u of None \<Rightarrow> questions s | Some v \<Rightarrow> v)
     \<and> total_questions (applyUpdate u s) =
         (case set_total_questions u of None \<Rightarrow> total_questions s | Some v \<Rightarrow> v)"
proof -
  have a: "length db' = length db \<and> (\<forall>i < length db. completed (db ! i) \<longrightarrow> completed (db' ! i))"
    unfolding assms by (rule submit_monotone)
  have b: "(case fst (submitAnswers db clock reqUser sessionId submitted) of
           Success d \<Rightarrow> True
         | _ \<Rightarrow> db' = db)"
    unfolding assms by (rule submit_refused)
  have c: "\<exists>ds d d'.
             fst (submitAnswers db clock reqUser sessionId submitted) = Success d
           \<and> map qa_question_id ds = map question_id submitted
           \<and> map qa_user_answer ds = map user_answer submitted
           \<and> (\<forall>i < length db.
                db' ! i =
                  (if s_id (db ! i) = sessionId
                   then (db ! i) \<lparr> answers := ds, score := r_score d, completed := True,
                                   completed_at := Some (clock (length submitted)) \<rparr>
                   else db ! i))
           \<and> fst (submitAnswers db' clock' reqUser sessionId submitted') = Success d'
           \<and> r_total_questions d' = r_total_questions d"
    if f: "reqUser = Some userId" "userId \<noteq> []"
      "find (\<lambda>s. s_id s = sessionId) (getUserQuizSessions db userId) = Some session"
    for userId session
  proof -
    from submit_table [OF f, of clock submitted] assms
    obtain ds d where r: "fst (submitAnswers db clock reqUser sessionId submitted) = Success d"
      and m: "map qa_question_id ds = map question_id submitted"
        "map qa_user_answer ds = map user_answer submitted"
      and tab: "db' = map (markSubmitted sessionId ds (r_score d) (clock (length submitted))) db"
      by auto
    let ?f = "markSubmitted sessionId ds (r_score d) (clock (length submitted))"
    have rows: "\<forall>i < length db.
                db' ! i =
                  (if s_id (db ! i) = sessionId
                   then (db ! i) \<lparr> answers := ds, score := r_score d, completed := True,
                                   completed_at := Some (clock (length submitted)) \<rparr>
                   else db ! i)"
      unfolding tab by (simp add: markSubmitted_def)
    have f': "find (\<lambda>s. s_id s = sessionId) (getUserQuizSessions db' userId) = Some (?f session)"
      unfolding tab using f(3) by (simp add: find_user_session_map)
    have q: "(case questions (?f session) of None \<Rightarrow> [] | Some l \<Rightarrow> l) =
             (case questions session of None \<Rightarrow> [] | Some l \<Rightarrow> l)" by simp
    have "\<exists>d'. fst (submitAnswers db' clock' reqUser sessionId submitted') = Success d'
            \<and> r_total_questions d' = r_total_questions d"
      using submit_response [OF f refl, of clock submitted]
        submit_response [OF f(1,2) f' refl, of clock' submitted'] r
      by (simp only: q) simp
    with r m rows show ?thesis by blast
  qed
  note p = patch_rows [of db sid u]
  from a b c p show ?thesis
    by (simp only: applyUpdate_fields simp_thms) blast
qed

text \<open>
  The table of two sessions: two answers are submitted for the first, which is completed
  with two stored answers and its five questions; the second session, of another user
  and completed, is as it was; the full submission that follows is answered with the
  total of 5; and the update route then sets \<open>completed\<close> of the first session back.
\<close>

theorem submit_completes_and_keeps_questions_witness:
  "find (\<lambda>s. s_id s = ''s1'') (getUserQuizSessions twoSessions ''u1'') = Some (hd exampleTable) \<and>
   length (snd (submitAnswers twoSessions exampleClock (Some ''u1'') ''s1'' (take 2 exampleAnswers))) = 2 \<and>
   completed (snd (submitAnswers twoSessions exampleClock (Some ''u1'') ''s1'' (take 2 exampleAnswers)) ! 0) \<and>
   map qa_user_answer
     (answers (snd (submitAnswers twoSessions exampleClock (Some ''u1'') ''s1'' (take 2 exampleAnswers)) ! 0))
     = [Some ''a'', Some ''B''] \<and>
   questions (snd (submitAnswers twoSessions exampleClock (Some ''u1'') ''s1'' (take 2 exampleAnswers)) ! 0)
     = Some exampleQuestions \<and>
   total_questions (snd (submitAnswers twoSessions exampleClock (Some ''u1'') ''s1'' (take 2 exampleAnswers)) ! 0)
     = 5 \<and>
   snd (submitAnswers twoSessions exampleClock (Some ''u1'') ''s1'' (take 2 exampleAnswers)) ! 1
     = otherSession \<and>
   completed otherSession \<and>
   (\<exists>d'. fst (submitAnswers
              (snd (submitAnswers twoSessions exampleClock (Some ''u1'') ''s1'' (take 2 exampleAnswers)))
              exampleClock (Some ''u1'') ''s1'' exampleAnswers) = Success d' \<and>
         r_total_questions d' = 5) \<and>
   patchSession twoSessions ''s9'' (noUpdate \<lparr> set_completed := Some False \<rparr>) ! 0 = hd exampleTable \<and>
   completed (patchSession twoSessions ''s9'' (noUpdate \<lparr> set_completed := Some False \<rparr>) ! 1) = False"
proof -
  let ?db1 = "snd (submitAnswers twoSessions exampleClock (Some ''u1'') ''s1'' (take 2 exampleAnswers))"
  let ?u = "noUpdate \<lparr> set_completed := Some False \<rparr>"
  have ne: "''u1'' \<noteq> []" by simp
  note t = submit_completes_and_keeps_questions [OF refl,
      where db = twoSessions and clock = exampleClock and reqUser = "Some ''u1''"
        and sessionId = "''s1''" and submitted = "take 2 exampleAnswers"
        and clock' = exampleClock and submitted' = exampleAnswers
        and sid = "''s9''" and u = ?u and s = otherSession]
  from t have len: "length ?db1 = 2" by (simp add: twoSessions_rows)
  from t have "\<exists>ds d d'.
             fst (submitAnswers twoSessions exampleClock (Some ''u1'') ''s1'' (take 2 exampleAnswers)) = Success d
           \<and> map qa_question_id ds = map question_id (take 2 exampleAnswers)
           \<and> map qa_user_answer ds = map user_answer (take 2 exampleAnswers)
           \<and> (\<forall>i < length twoSessions.
                ?db1 ! i =
                  (if s_id (twoSessions ! i) = ''s1''
                   then (twoSessions ! i) \<lparr> answers := ds, score := r_score d, completed := True,
                                   completed_at := Some (exampleClock (length (take 2 exampleAnswers))) \<rparr>
                   else twoSessions ! i))
           \<and> fst (submitAnswers ?db1 exampleClock (Some ''u1'') ''s1'' exampleAnswers) = Success d'
           \<and> r_total_questions d' = r_total_questions d"
    using ne twoSessions_rows(9) by blast
  then obtain ds d d' where
        r: "fst (submitAnswers twoSessions exampleClock (Some ''u1'') ''s1'' (take 2 exampleAnswers)) = Success d"
    and m: "map qa_user_answer ds = map user_answer (take 2 exampleAnswers)"
    and rows: "\<forall>i < length twoSessions.
                ?db1 ! i =
                  (if s_id (twoSessions ! i) = ''s1''
                   then (twoSessions ! i) \<lparr> answers := ds, score := r_score d, completed := True,
                                   completed_at := Some (exampleClock (length (take 2 exampleAnswers))) \<rparr>
                   else twoSessions ! i)"
    and r': "fst (submitAnswers ?db1 exampleClock (Some ''u1'') ''s1'' exampleAnswers) = Success d'"
    and tot: "r_total_questions d' = r_total_questions d"
    by blast
  from rows [rule_format, of 0] have row0: "?db1 ! 0 = (hd exampleTable) \<lparr> answers := ds, score := r_score d,
        completed := True, completed_at := Some (exampleClock (length (take 2 exampleAnswers))) \<rparr>"
    by (simp add: twoSessions_rows)
  from rows [rule_format, of 1] have row1: "?db1 ! 1 = otherSession"
    by (simp add: twoSessions_rows)
  have first: "fst (submitAnswers twoSessions exampleClock (Some ''u1'') ''s1'' (take 2 exampleAnswers)) =
      Success \<lparr> r_score = int (length (filter (gradedCorrect exampleQuestions) (take 2 exampleAnswers))),
                r_total_questions = length exampleQuestions,
                wrong_explanations = map (explanationFor exampleQuestions)
                  (filter (\<lambda>a. \<not> gradedCorrect exampleQuestions a) (take 2 exampleAnswers)) \<rparr>"
    by (rule submit_response [OF refl ne twoSessions_rows(9)]) (simp add: exampleTable_def)
  from first r tot have five: "r_total_questions d' = 5" by (auto simp: exampleQuestions_def)
  from m have ans: "map qa_user_answer ds = [Some ''a'', Some ''B'']"
    by (simp add: exampleAnswers_def exampleAnswer_def)
  from t have p0: "patchSession twoSessions ''s9'' ?u ! 0 = hd exampleTable"
    by (simp add: twoSessions_rows)
  from t have p1: "completed (patchSession twoSessions ''s9'' ?u ! 1) = False"
    by (simp add: twoSessions_rows noUpdate_def)
  from len row0 row1 r' five ans p0 p1 twoSessions_rows show ?thesis by simp
qed

text \<open>
  C7 as stated fails twice.  After a submission of two answers to the quiz of five
  questions the session is completed with two stored answers, not five; and the update
  route then writes \<open>completed = false\<close> back, as it writes any field a request carries.
\<close>

theorem completed_flag_counterexample:
  "map completed exampleTable = [False] \<and>
   map completed (snd (submitAnswers exampleTable exampleClock (Some ''u1'') ''s1'' (take 2 exampleAnswers))) = [True] \<and>
   map (\<lambda>s. length (answers s)) (snd (submitAnswers exampleTable exampleClock (Some ''u1'') ''s1'' (take 2 exampleAnswers))) = [2] \<and>
   map (\<lambda>s. length (case questions s of None \<Rightarrow> [] | Some l \<Rightarrow> l))
      (snd (submitAnswers exampleTable exampleClock (Some ''u1'') ''s1'' (take 2 exampleAnswers))) = [5] \<and>
   map completed
     (patchSession (snd (submitAnswers exampleTable exampleClock (Some ''u1'') ''s1'' (take 2 exampleAnswers)))
        ''s1'' (noUpdate \<lparr> set_completed := Some False \<rparr>)) = [False]"
  unfolding example_submit_two
  by (simp add: example_defs patchSession_def updateQuizSession_def applyUpdate_def noUpdate_def)

subsection \<open>Quiz generation\<close>

lemma generateQuizQuestions_try_failure:
  assumes "complete env \<lparr> model = ''gpt-3.5-turbo'', content = prompt, max_tokens = 1200,
                           temperature = 8 / 10 \<rparr> = CompletionThrows \<or>
           (\<exists>c. complete env \<lparr> model = ''gpt-3.5-turbo'', content = prompt, max_tokens = 1200,
                           temperature = 8 / 10 \<rparr> = CompletionContent c \<and> noJsonArray env c)"
  shows "generateQuizQuestions_try env prompt topic d = Inl CompletionError
      \<or> generateQuizQuestions_try env prompt topic d = Inl SyntaxError
      \<or> generateQuizQuestions_try env prompt topic d =
           Inr [questionOnly (''No quiz generated for topic: '' @ topic)]"
  using assms
  by (auto simp: generateQuizQuestions_try_def noJsonArray_def Let_def split: option.splits)

lemma prose_ws: "trim (removeFences ''Sorry, I cannot write a quiz [yet.'') = ''Sorry, I cannot write a quiz [yet.''"
  by (simp add: trim_def fence_def bq_def wsLen_def toLowerChar_def removeFences.simps dropWs.simps trimEnd.simps)

lemma prose_fails:
  "noJsonArray proseEnv (Some ''Sorry, I cannot write a quiz [yet.'')"
  by (simp add: proseEnv_def noJsonArray_def or_default_def or_else_def prose_ws matchArray_def)

lemma prose_try:
  "generateQuizQuestions_try proseEnv prompt ''closures'' d =
     Inr [questionOnly ''No quiz generated for topic: closures'']"
  by (simp add: generateQuizQuestions_try_def proseEnv_def or_default_def or_else_def prose_ws matchArray_def)

lemma throwing_try:
  "generateQuizQuestions_try throwingEnv prompt ''closures'' d = Inl CompletionError"
  by (simp add: generateQuizQuestions_try_def throwingEnv_def)

lemma fenced: "trim (removeFences fencedReply) = twoOptionsJson"
  by (simp add: fencedReply_def fence_def bq_def nl_def twoOptionsJson_def dq_def toLowerChar_def trim_def
      wsLen_def removeFences.simps dropWs.simps trimEnd.simps)

lemma fencedReply_nonempty: "or_default (Some fencedReply) [] = fencedReply"
  by (simp add: or_default_def or_else_def)

lemma twoOptions_match: "matchArray twoOptionsJson = Some twoOptionsJson"
  by (simp add: matchArray_def twoOptionsJson_def dq_def)

lemma twoOptions_try:
  "generateQuizQuestions_try twoOptionsEnv prompt topic d =
     mapQuestions (\<lambda>k. 1700000000000) d topic 0
       [RawObject \<lparr> raw_question = Some ''Q'', raw_options = OptionsArray [''X'', ''Y''],
               raw_code_snippet = None, raw_answer = Some ''a'', raw_explanation = None \<rparr>]"
  by (simp add: generateQuizQuestions_try_def twoOptionsEnv_def fencedReply_nonempty
      fenced twoOptions_match)

text \<open>
  C4, as the program has it.  Whatever the topic, when every call of the completion
  collaborator throws or returns a text that holds no valid JSON array,
  \<open>generateQuizQuestions\<close> returns a list of exactly one element, the placeholder that
  reports the failure for the topic; it neither throws nor returns the empty list.  The
  placeholder carries its question text and no other field.
\<close>

theorem generateQuizQuestions_failure_placeholder:
  assumes "\<forall>req. complete env req = CompletionThrows \<or>
             (\<exists>c. complete env req = CompletionContent c \<and> noJsonArray env c)"
  shows "(generateQuizQuestions env topic totalQuestions userId difficultyArg =
            [questionOnly (''Failed to generate quiz for topic: '' @ topic)]
        \<or> generateQuizQuestions env topic totalQuestions userId difficultyArg =
            [questionOnly (''No quiz generated for topic: '' @ topic)])
       \<and> question (questionOnly text) = Some text
       \<and> q_id (questionOnly text) = None \<and> options (questionOnly text) = None
       \<and> correct_answer (questionOnly text) = None \<and> explanation (questionOnly text) = None"
proof -
  have key: "(case generateQuizQuestions_try env prompt topic d of
           Inr qs \<Rightarrow> qs
         | Inl e \<Rightarrow> [questionOnly (''Failed to generate quiz for topic: '' @ topic)]) =
           [questionOnly (''Failed to generate quiz for topic: '' @ topic)]
       \<or> (case generateQuizQuestions_try env prompt topic d of
           Inr qs \<Rightarrow> qs
         | Inl e \<Rightarrow> [questionOnly (''Failed to generate quiz for topic: '' @ topic)]) =
           [questionOnly (''No quiz generated for topic: '' @ topic)]" for prompt d
    using generateQuizQuestions_try_failure [OF assms [rule_format], of prompt topic d]
    by (elim disjE) simp_all
  have "generateQuizQuestions env topic totalQuestions userId difficultyArg =
            [questionOnly (''Failed to generate quiz for topic: '' @ topic)]
        \<or> generateQuizQuestions env topic totalQuestions userId difficultyArg =
            [questionOnly (''No quiz generated for topic: '' @ topic)]"
    unfolding generateQuizQuestions_def Let_def by (rule key)
  then show ?thesis by (simp add: questionOnly_def)
qed

theorem generateQuizQuestions_failure_placeholder_witness:
  "generateQuizQuestions throwingEnv ''closures'' 5 ''u1'' None =
     [questionOnly ''Failed to generate quiz for topic: closures''] \<and>
   generateQuizQuestions proseEnv ''closures'' 5 ''u1'' None =
     [questionOnly ''No quiz generated for topic: closures'']"
proof -
  have a: "\<forall>req. complete throwingEnv req = CompletionThrows \<or>
             (\<exists>c. complete throwingEnv req = CompletionContent c \<and> noJsonArray throwingEnv c)"
    by (simp add: throwingEnv_def)
  have b: "\<forall>req. complete proseEnv req = CompletionThrows \<or>
             (\<exists>c. complete proseEnv req = CompletionContent c \<and> noJsonArray proseEnv c)"
    using prose_fails by (simp add: proseEnv_def)
  have na: "generateQuizQuestions throwingEnv ''closures'' 5 ''u1'' None \<noteq>
     [questionOnly ''No quiz generated for topic: closures'']"
    unfolding generateQuizQuestions_def Let_def throwing_try by (simp add: questionOnly_def)
  have nb: "generateQuizQuestions proseEnv ''closures'' 5 ''u1'' None \<noteq>
     [questionOnly ''Failed to generate quiz for topic: closures'']"
    unfolding generateQuizQuestions_def Let_def prose_try by (simp add: questionOnly_def)
  from generateQuizQuestions_failure_placeholder [OF a, of "''closures''" 5 "''u1''" None]
    generateQuizQuestions_failure_placeholder [OF b, of "''closures''" 5 "''u1''" None] na nb
  show ?thesis by simp
qed


text \<open>
  C4 as stated has the list well typed.  The placeholder that a throwing collaborator
  leads to is no \<open>QuizQuestion\<close>: it has no id, type, correct answer, explanation,
  difficulty or concepts, while every question mapped from a parsed object has them all.
\<close>

theorem placeholder_counterexample:
  "generateQuizQuestions throwingEnv ''closures'' 5 ''u1'' None =
     [questionOnly ''Failed to generate quiz for topic: closures''] \<and>
   \<not> isQuizQuestion (questionOnly ''Failed to generate quiz for topic: closures'')"
proof -
  have "generateQuizQuestions throwingEnv ''closures'' 5 ''u1'' None =
     [questionOnly ''Failed to generate quiz for topic: closures'']"
    unfolding generateQuizQuestions_def Let_def throwing_try by simp
  then show ?thesis by (simp add: isQuizQuestion_def questionOnly_def)
qed

lemma mapQuestion_complete:
  "mapQuestion now d topic (RawObject q) idx = Inr mq \<Longrightarrow> isQuizQuestion mq"
  by (auto simp: mapQuestion_def isQuizQuestion_def)

text \<open>
  C5, as the program has it.  A labelled options object becomes the list of its entries
  \<open>a\<close>, \<open>b\<close>, \<open>c\<close>, \<open>d\<close> in this order, always of four elements, with the empty
  string where the object has no entry for a label (so an object without any of the four
  labels gives four empty strings); a list is returned as it is, so normalising twice is
  normalising once, and the result has four elements exactly when the list has; a value
  that is neither an object nor a list gives the empty list; the mapped question carries
  the normalised list.
\<close>

theorem optionsArr_normalizes:
  "optionsArr (OptionsObject [''a'' \<mapsto> X, ''b'' \<mapsto> Y, ''c'' \<mapsto> Z, ''d'' \<mapsto> W]) = [X, Y, Z, W]
   \<and> optionsArr (OptionsObject obj) =
       [case obj ''a'' of None \<Rightarrow> [] | Some v \<Rightarrow> v, case obj ''b'' of None \<Rightarrow> [] | Some v \<Rightarrow> v,
        case obj ''c'' of None \<Rightarrow> [] | Some v \<Rightarrow> v, case obj ''d'' of None \<Rightarrow> [] | Some v \<Rightarrow> v]
   \<and> optionsArr (OptionsObject [''b'' \<mapsto> Y]) = [[], Y, [], []]
   \<and> optionsArr (OptionsObject (\<lambda>key. None)) = [[], [], [], []]
   \<and> length (optionsArr (OptionsObject obj)) = 4
   \<and> optionsArr (OptionsArray arr) = arr
   \<and> optionsArr (OptionsArray (optionsArr opts)) = optionsArr opts
   \<and> (length (optionsArr (OptionsArray arr)) = 4) = (length arr = 4)
   \<and> optionsArr OptionsOther = []
   \<and> (case mapQuestion now d topic (RawObject q) idx of
         Inr mq \<Rightarrow> options mq = Some (optionsArr (raw_options q))
       | Inl e \<Rightarrow> False)"
  by (simp add: optionsArr_def or_default_def or_else_def mapQuestion_def split: option.splits)

text \<open>
  C5 as stated asks for four options in every case.  A completion whose question has a
  list of two options gives a question with these two options.
\<close>

theorem options_length_counterexample:
  "map options (generateQuizQuestions twoOptionsEnv ''closures'' 1 ''u1'' None) = [Some [''X'', ''Y'']]
   \<and> optionsArr (OptionsArray [''X'', ''Y'']) = [''X'', ''Y'']"
  unfolding generateQuizQuestions_def Let_def twoOptions_try
  by (simp add: mapQuestion_def optionsArr_def)

subsection \<open>The orchestrator\<close>

lemma answerFollowUp_transitions:
  "answerFollowUp env cc quiz digits userInput = (Inr r, calls) \<Longrightarrow> available_transitions r = allNodes"
  by (auto simp: answerFollowUp_def Let_def split: option.splits)

lemma runTurn_transitions:
  "runTurn env prefs userId sessionId userInput cc = (Inr r, calls) \<Longrightarrow> available_transitions r = allNodes"
  by (auto simp: runTurn_def saveSessionState_def Let_def
      split: prod.splits sum.splits option.splits HistoryValue.splits)

lemma executeGraph_try_transitions:
  "fst (executeGraph_try env userId sessionId userInput cc) = Inr r \<Longrightarrow> available_transitions r = allNodes"
  by (auto simp: executeGraph_try_def Let_def split: prod.splits option.splits
      dest: answerFollowUp_transitions runTurn_transitions)

lemma fallbackResult_fields:
  "response (fallbackResult env userInput k) = fallbackResponse"
  "current_node (fallbackResult env userInput k) = ConceptExplainer"
  "available_transitions (fallbackResult env userInput k) = allNodes"
  by (simp_all add: fallbackResult_def)

text \<open>
  C8, as the program has it.  \<open>executeGraph\<close> always returns a result, never an exception,
  and the result always lists the four mode tags as available transitions.  An exception
  that leaves the body of its \<open>try\<close> is answered with the general reply that names the
  four capabilities, tagged concept-explainer.  (A failure of the completion call never
  leaves the executor, and a failure of the session update never leaves
  \<open>saveSessionState\<close>: each has its own handler, and the turn keeps its reply.)
\<close>

theorem executeGraph_contains_exceptions:
  "\<exists>r. fst (executeGraph env userId sessionId userInput cc) = Inr r \<and>
        available_transitions r = allNodes \<and>
        (\<forall>e. fst (executeGraph_try env userId sessionId userInput cc) = Inl e \<longrightarrow>
               response r = fallbackResponse \<and> current_node r = ConceptExplainer)"
proof (cases "executeGraph_try env userId sessionId userInput cc")
  case (Pair outcome calls)
  show ?thesis
  proof (cases outcome)
    case (Inl e)
    with Pair show ?thesis by (simp add: executeGraph_def fallbackResult_fields)
  next
    case (Inr r)
    with Pair executeGraph_try_transitions [of env userId sessionId userInput cc r]
    show ?thesis by (simp add: executeGraph_def)
  qed
qed


lemmas pattern_eval = quizFollowUp_def referencesQuestion_def questionNumber_def searchFirst.simps
  questionPattern_def qPattern_def answerToPattern_def digitsAfter_def isDigit_def toLowerChar_def
  dropWs.simps wsLen_def

lemma followUp_question_2:
  "quizFollowUp (Some (withQuiz quiz)) ''what about question 2'' = Some (withQuiz quiz, quiz, ''2'')"
  by (simp add: pattern_eval withQuiz_def)

lemma followUp_question_1:
  "quizFollowUp (Some (withQuiz quiz)) ''what about question 1'' = Some (withQuiz quiz, quiz, ''1'')"
  by (simp add: pattern_eval withQuiz_def)

lemma followUp_q9:
  "quizFollowUp (Some (withQuiz quiz)) ''and Q9?'' = Some (withQuiz quiz, quiz, ''9'')"
  by (simp add: pattern_eval withQuiz_def)

lemma no_followUp:
  "quizFollowUp (Some (withQuiz quiz)) ''explain closures'' = None"
  by (simp add: pattern_eval withQuiz_def)


lemma quizFollowUp_context:
  "quizFollowUp currentContext userInput = Some (cc, quiz, digits) \<Longrightarrow>
     currentContext = Some cc \<and> quizContext cc = Some quiz"
  by (auto simp: quizFollowUp_def split: option.splits if_splits)

lemma executeGraph_followUp_reply:
  assumes "quizFollowUp currentContext userInput = Some (cc, quiz, digits)"
    and "questionAt quiz (int (parseInt digits) - 1) = Some q"
    and "options q = Some opts"
  shows "executeGraph env userId sessionId userInput currentContext =
     (Inr \<lparr> response = questionReply (int (parseInt digits) - 1) q opts userInput,
            current_node = QuizGenerator,
            available_transitions = allNodes,
            session_context = cc,
            metadata = \<lparr> md_timestamp = isoNow env 0, iteration_count = 0 \<rparr> \<rparr>,
      [GetUserById userId, ReadClock])"
  using assms by (simp add: executeGraph_def executeGraph_try_def answerFollowUp_def Let_def)

lemma executeGraph_followUp_out_of_range:
  assumes "quizFollowUp currentContext userInput = Some (cc, quiz, digits)"
    and "questionAt quiz (int (parseInt digits) - 1) = None"
  shows "executeGraph env userId sessionId userInput currentContext =
     (Inr \<lparr> response = noSuchQuestion (int (parseInt digits) - 1),
            current_node = QuizGenerator,
            available_transitions = allNodes,
            session_context = cc,
            metadata = \<lparr> md_timestamp = isoNow env 0, iteration_count = 0 \<rparr> \<rparr>,
      [GetUserById userId, ReadClock])"
  using assms by (simp add: executeGraph_def executeGraph_try_def answerFollowUp_def Let_def)

lemma executeGraph_followUp_no_options:
  assumes "quizFollowUp currentContext userInput = Some (cc, quiz, digits)"
    and "questionAt quiz (int (parseInt digits) - 1) = Some q"
    and "options q = None"
  shows "executeGraph env userId sessionId userInput currentContext =
     (Inr (fallbackResult env userInput 0), [GetUserById userId, ReadClock])"
  using assms
  by (simp add: executeGraph_def executeGraph_try_def answerFollowUp_def Let_def clockReadings_def)

lemma failedQuiz_questions:
  "questions failedQuiz = Some [questionOnly ''Failed to generate quiz for topic: closures'']"
  unfolding failedQuiz_def generateQuizQuestions_def Let_def throwing_try by simp

lemma failedQuiz_first:
  "questionAt failedQuiz (int (parseInt ''1'') - 1) =
     Some (questionOnly ''Failed to generate quiz for topic: closures'')"
  by (simp add: questionAt_def failedQuiz_questions parseInt_def digitValue_def)

text \<open>
  C3 at a quiz whose generation failed.  The stored question exists and has no options;
  the follow-up \<open>what about question 1\<close> throws while it lists them, and the turn is
  answered with the general reply, tagged concept-explainer.  For a question that has
  options, \<open>executeGraph_followUp_reply\<close> and \<open>questionReply_contains\<close> give what C3 says
  (\<open>follow_up_question_2\<close> runs it), and \<open>executeGraph_followUp_out_of_range\<close> the reply for
  a number out of range; no completion call is among the calls of either.
\<close>

theorem follow_up_on_failed_quiz:
  "questionAt failedQuiz 0 = Some (questionOnly ''Failed to generate quiz for topic: closures'') \<and>
   executeGraph env ''u1'' ''s1'' ''what about question 1'' (Some (withQuiz failedQuiz)) =
     (Inr (fallbackResult env ''what about question 1'' 0), [GetUserById ''u1'', ReadClock]) \<and>
   current_node (fallbackResult env ''what about question 1'' 0) = ConceptExplainer \<and>
   response (fallbackResult env ''what about question 1'' 0) = fallbackResponse"
  using executeGraph_followUp_no_options [OF followUp_question_1 failedQuiz_first, of env "''u1''" "''s1''"]
    failedQuiz_first
  by (simp add: questionOnly_def fallbackResult_def parseInt_def digitValue_def)


lemma sublist_right: "sublist x ys \<Longrightarrow> sublist x (zs @ ys)"
  unfolding sublist_def by (metis append_assoc)

lemma sublist_left: "sublist x ys \<Longrightarrow> sublist x (ys @ zs)"
  unfolding sublist_def by (metis append_assoc)

lemma sublist_js_join:
  "line \<in> set ls \<Longrightarrow> sublist line (js_join sep ls)"
proof (induction sep ls rule: js_join.induct)
  case (1 sep)
  then show ?case by simp
next
  case (2 sep x)
  then show ?case by simp
next
  case (3 sep x y ys)
  from "3.prems" have "line = x \<or> line \<in> set (y # ys)" by auto
  then show ?case
  proof
    assume "line = x"
    then show ?thesis by simp
  next
    assume "line \<in> set (y # ys)"
    from "3.IH" [OF this] show ?thesis
      by (simp only: js_join.simps) (intro sublist_right)
  qed
qed

lemma optionLines_contains:
  "opt \<in> set opts \<Longrightarrow> \<exists>line \<in> set (optionLines k opts). sublist opt line"
proof (induction opts arbitrary: k)
  case Nil
  then show ?case by simp
next
  case (Cons o1 rest)
  from Cons.prems have "opt = o1 \<or> opt \<in> set rest" by auto
  then show ?case
  proof
    assume "opt = o1"
    then have "sublist opt (fromCharCode (65 + k) @ '') '' @ o1)"
      by (intro sublist_right) simp
    then show ?thesis by simp
  next
    assume "opt \<in> set rest"
    from Cons.IH [OF this, of "Suc k"] show ?thesis by auto
  qed
qed

lemma questionReply_contains:
  "sublist (interp (question q)) (questionReply n q opts u)"
  "sublist (interp (correct_answer q)) (questionReply n q opts u)"
  "sublist (interp (explanation q)) (questionReply n q opts u)"
proof -
  show "sublist (interp (question q)) (questionReply n q opts u)"
    unfolding questionReply_def
    by (rule sublist_right, rule sublist_right, rule sublist_right, rule sublist_append_rightI)
  show "sublist (interp (correct_answer q)) (questionReply n q opts u)"
    unfolding questionReply_def
    by (rule sublist_right, rule sublist_right, rule sublist_right, rule sublist_right, rule sublist_right, rule sublist_right, rule sublist_right, rule sublist_right, rule sublist_right, rule sublist_right, rule sublist_right, rule sublist_right, rule sublist_append_rightI)
  show "sublist (interp (explanation q)) (questionReply n q opts u)"
    unfolding questionReply_def
    by (rule sublist_right, rule sublist_right, rule sublist_right, rule sublist_right, rule sublist_right, rule sublist_right, rule sublist_right, rule sublist_right, rule sublist_right, rule sublist_right, rule sublist_right, rule sublist_right, rule sublist_right, rule sublist_right, rule sublist_right, rule sublist_right, rule sublist_append_rightI)
qed

lemma sublist_trans: "sublist a b \<Longrightarrow> sublist b c \<Longrightarrow> sublist a c"
  unfolding sublist_def by (metis append_assoc)

lemma questionReply_contains_option:
  assumes "opt \<in> set opts"
  shows "sublist opt (questionReply n q opts u)"
proof -
  from optionLines_contains [OF assms, of 0] obtain line
    where l: "line \<in> set (optionLines 0 opts)" and s: "sublist opt line" by blast
  from s sublist_js_join [OF l, of nl] have j: "sublist opt (js_join nl (optionLines 0 opts))"
    by (rule sublist_trans)
  show ?thesis
    unfolding questionReply_def
    by (rule sublist_right, rule sublist_right, rule sublist_right, rule sublist_right, rule sublist_right, rule sublist_right, rule sublist_right, rule sublist_right, rule sublist_left, rule j)
qed


text \<open>
  The follow-up on the second question of the example quiz, without and with a question
  about another option: the reply is the text of the question, its options, its correct
  answer and its explanation, and the turn calls the user table and the clock only.
\<close>

lemma labels_none: "uniqueLabels ''what about question 2'' = []"
  by (simp add: uniqueLabels_def answerLabels.simps isWordChar_def)

lemma labels_b: "uniqueLabels ''question 2, why not b or B?'' = [''B'']"
  by (simp add: uniqueLabels_def answerLabels.simps isWordChar_def toUpperCase_def toUpperChar_def)

lemma example_second:
  "questionAt (hd exampleTable) (int (parseInt ''2'') - 1) = Some (exampleQuestion ''2'' ''b'')"
  by (simp add: questionAt_def exampleTable_def exampleQuestions_def parseInt_def digitValue_def)

lemma example_reply:
  "questionReply 1 (exampleQuestion ''2'' ''b'') [''W'', ''X'', ''Y'', ''Z''] ''what about question 2'' =
     ''Q2: Question 2'' @ nl @ nl @ ''Options:'' @ nl @ ''A) W'' @ nl @ ''B) X'' @ nl @ ''C) Y'' @ nl @
     ''D) Z'' @ nl @ nl @ ''Correct Answer: b'' @ nl @ nl @ ''Explanation: Because b''"
  by (simp add: questionReply_def labels_none exampleQuestion_def interp_def showInt_def
      showNat.simps digitChar_def fromCharCode_def char_of_def bit_Suc_0_iff nl_def)

lemma example_reply_why_not:
  "questionReply 1 (exampleQuestion ''2'' ''b'') [''W'', ''X'', ''Y'', ''Z''] ''question 2, why not b or B?'' =
     ''Q2: Question 2'' @ nl @ nl @ ''Options:'' @ nl @ ''A) W'' @ nl @ ''B) X'' @ nl @ ''C) Y'' @ nl @
     ''D) Z'' @ nl @ nl @ ''Correct Answer: b'' @ nl @ nl @ ''Explanation: Because b''"
  by (simp add: questionReply_def labels_b exampleQuestion_def interp_def showInt_def
      showNat.simps digitChar_def fromCharCode_def char_of_def bit_Suc_0_iff nl_def
      correctIdx_def codeMinus65_def toUpperChar_def)

lemma labels_a: "uniqueLabels ''question 2, why not A?'' = [''A'']"
  by (simp add: uniqueLabels_def answerLabels.simps isWordChar_def toUpperCase_def toUpperChar_def)

lemma example_reply_why_not_a:
  "questionReply 1 (exampleQuestion ''2'' ''b'') [''W'', ''X'', ''Y'', ''Z''] ''question 2, why not A?'' =
     ''Q2: Question 2'' @ nl @ nl @ ''Options:'' @ nl @ ''A) W'' @ nl @ ''B) X'' @ nl @ ''C) Y'' @ nl @
     ''D) Z'' @ nl @ nl @ ''Correct Answer: b'' @ nl @ nl @ ''Explanation: Because b'' @ nl @ nl @
     ''Option A) W is not correct because it does not satisfy the requirements of the question or is not the best answer.''"
  by (simp add: questionReply_def labels_a exampleQuestion_def interp_def showInt_def
      showNat.simps digitChar_def fromCharCode_def char_of_def bit_Suc_0_iff nl_def
      correctIdx_def codeMinus65_def toUpperChar_def)

lemma follow_up_question_2:
  "executeGraph env ''u1'' ''s1'' ''what about question 2'' (Some (withQuiz (hd exampleTable))) =
     (Inr \<lparr> response =
              ''Q2: Question 2'' @ nl @ nl @ ''Options:'' @ nl @ ''A) W'' @ nl @ ''B) X'' @ nl @
              ''C) Y'' @ nl @ ''D) Z'' @ nl @ nl @ ''Correct Answer: b'' @ nl @ nl @
              ''Explanation: Because b'',
            current_node = QuizGenerator,
            available_transitions = allNodes,
            session_context = withQuiz (hd exampleTable),
            metadata = \<lparr> md_timestamp = isoNow env 0, iteration_count = 0 \<rparr> \<rparr>,
      [GetUserById ''u1'', ReadClock])"
proof -
  have o: "options (exampleQuestion ''2'' ''b'') = Some [''W'', ''X'', ''Y'', ''Z'']"
    by (simp add: exampleQuestion_def)
  have n: "int (parseInt ''2'') - 1 = 1" by (simp add: parseInt_def digitValue_def)
  show ?thesis
    using executeGraph_followUp_reply [OF followUp_question_2 example_second o, of env "''u1''" "''s1''"]
    unfolding n example_reply .
qed

lemma quizFollowUp_no_context: "quizFollowUp None userInput = None"
  by (simp add: quizFollowUp_def)

lemma quizFollowUp_no_quiz: "quizContext cc = None \<Longrightarrow> quizFollowUp (Some cc) userInput = None"
  by (simp add: quizFollowUp_def)

lemma saveSessionState_returns:
  "saveSessionState env sessionId state = (Inr (), [UpdateChatSession sessionId (sessionUpdate state)])"
  by (simp add: saveSessionState_def split: WriteOutcome.splits)

lemma executeGraph_turn:
  assumes "quizFollowUp cc userInput = None"
    and "state0 = initialState env (loadPreferences env userId) userId sessionId userInput cc"
    and "node = determineNode userInput (st_context state0)"
    and "conversation_history (st_context state0) = Some (HistoryArray h)"
    and "executeNode env node (state0 \<lparr> st_current_node := node \<rparr>) = (Inr reply, calls)"
  shows "executeGraph env userId sessionId userInput cc =
     (Inr \<lparr> response = reply,
            current_node = node,
            available_transitions = allNodes,
            session_context = (st_context state0)
              \<lparr> node_output := Some reply,
                conversation_history := Some (HistoryArray (h @
                  [\<lparr> h_timestamp = isoNow env 1, h_user_input = userInput,
                     h_node = nodeTag node, h_response = reply \<rparr>])) \<rparr>,
            metadata = st_metadata state0 \<rparr>,
      GetUserById userId # ReadClock # calls @
        [ReadClock,
         UpdateChatSession sessionId
           (sessionUpdate (state0 \<lparr> st_current_node := node,
              st_context := (st_context state0)
                \<lparr> node_output := Some reply,
                  conversation_history := Some (HistoryArray (h @
                    [\<lparr> h_timestamp = isoNow env 1, h_user_input = userInput,
                       h_node = nodeTag node, h_response = reply \<rparr>])) \<rparr> \<rparr>))])"
  using assms(1,4,5) unfolding assms(2,3)
  by (simp add: executeGraph_def executeGraph_try_def runTurn_def saveSessionState_returns Let_def)

lemma executeGraph_push_fails:
  assumes "quizFollowUp cc userInput = None"
    and "state0 = initialState env (loadPreferences env userId) userId sessionId userInput cc"
    and "node = determineNode userInput (st_context state0)"
    and "conversation_history (st_context state0) = Some HistoryNull"
    and "executeNode env node (state0 \<lparr> st_current_node := node \<rparr>) = (Inr reply, calls)"
  shows "executeGraph_try env userId sessionId userInput cc =
           (Inl TypeError, GetUserById userId # ReadClock # calls)"
  using assms(1,4,5) unfolding assms(2,3)
  by (simp add: executeGraph_try_def runTurn_def Let_def)


lemma route_review: "determineNode ''review my code'' x = CodeFeedback"
  by (simp add: determineNode_def toLowerCase.simps toLowerChar_def)

lemma route_explain: "determineNode ''explain closures'' x = ConceptExplainer"
  by (simp add: determineNode_def toLowerCase.simps toLowerChar_def)

lemma prompts_nonempty:
  "or_default (Some (codeFeedbackPrompt d l s u c)) dflt = codeFeedbackPrompt d l s u c"
  "or_default (Some (conceptExplainerPrompt d l s u)) dflt = conceptExplainerPrompt d l s u"
  by (simp_all add: or_default_def or_else_def codeFeedbackPrompt_def conceptExplainerPrompt_def)

lemma initialState_user_input:
  "user_input (st_context (initialState env prefs userId sessionId userInput cc)) =
     Some (case cc of
             None \<Rightarrow> userInput
           | Some c \<Rightarrow> (case user_input c of None \<Rightarrow> userInput | Some old \<Rightarrow> old))"
  by (simp add: initialState_def spread_def later_def emptyContext_def split: option.splits)

lemma echoEnv_fields:
  "getUserById echoEnv u = LookupUser None"
  "complete echoEnv r = CompletionContent (Some (content r))"
  "isoNow echoEnv = exampleClock"
  "updateChatSession echoEnv i upd = WriteReturns"
  by (simp_all add: echoEnv_def)

lemma throwingEnv_fields:
  "getUserById throwingEnv u = LookupThrows"
  "complete throwingEnv r = CompletionThrows"
  "isoNow throwingEnv = exampleClock"
  "updateChatSession throwingEnv i upd = WriteThrows"
  by (simp_all add: throwingEnv_def)

lemma echo_preferences: "loadPreferences echoEnv userId = None"
  by (simp add: loadPreferences_def echoEnv_fields)

lemma throwing_preferences: "loadPreferences throwingEnv userId = Some fallbackPreferences"
  by (simp add: loadPreferences_def throwingEnv_fields)

lemma initialState_no_context:
  "st_context (initialState env prefs userId sessionId userInput None) =
     emptyContext \<lparr> user_preferences := prefs, conversation_history := Some (HistoryArray []),
       ctx_available_transitions := Some [], user_input := Some userInput \<rparr>"
  by (simp add: initialState_def spread_def later_def emptyContext_def)

lemma initialState_metadata:
  "st_metadata (initialState env prefs userId sessionId userInput cc) =
     \<lparr> md_timestamp = isoNow env 0, iteration_count = 0 \<rparr>"
  by (simp add: initialState_def)

lemma echo_explainer:
  "executeNode echoEnv ConceptExplainer state =
     (Inr (conceptExplainerPrompt (preferredDifficulty (st_context state))
             (preferredLanguages (st_context state)) (preferredStyle (st_context state))
             (user_input (st_context state))),
      [ChatCompletion \<lparr> model = ''gpt-3.5-turbo'',
         content = conceptExplainerPrompt (preferredDifficulty (st_context state))
             (preferredLanguages (st_context state)) (preferredStyle (st_context state))
             (user_input (st_context state)),
         max_tokens = 600, temperature = 7 / 10 \<rparr>])"
  by (simp add: executeNode_def executeConceptExplainerNode_def Let_def echoEnv_fields prompts_nonempty)

lemma echo_feedback:
  "executeNode echoEnv CodeFeedback state =
     (Inr (codeFeedbackPrompt (preferredDifficulty (st_context state))
             (preferredLanguages (st_context state)) (preferredStyle (st_context state))
             (user_input (st_context state)) (last_code_snippet (st_context state))),
      [ChatCompletion \<lparr> model = ''gpt-3.5-turbo'',
         content = codeFeedbackPrompt (preferredDifficulty (st_context state))
             (preferredLanguages (st_context state)) (preferredStyle (st_context state))
             (user_input (st_context state)) (last_code_snippet (st_context state)),
         max_tokens = 500, temperature = 7 / 10 \<rparr>])"
  by (simp add: executeNode_def executeCodeFeedbackNode_def Let_def echoEnv_fields prompts_nonempty)

lemma no_preferences:
  "user_preferences ctx = None \<Longrightarrow> preferredDifficulty ctx = ''beginner''"
  "user_preferences ctx = None \<Longrightarrow> preferredLanguages ctx = ''JavaScript''"
  "user_preferences ctx = None \<Longrightarrow> preferredStyle ctx = ''hands-on''"
  by (simp_all add: preferredDifficulty_def preferredLanguages_def preferredStyle_def or_default_def)

lemma first_turn:
  "fst (executeGraph echoEnv ''u1'' ''s1'' ''explain closures'' None) =
     Inr \<lparr> response = conceptExplainerPrompt ''beginner'' ''JavaScript'' ''hands-on''
                         (Some ''explain closures''),
           current_node = ConceptExplainer,
           available_transitions = allNodes,
           session_context = savedContext,
           metadata = \<lparr> md_timestamp = exampleClock 0, iteration_count = 0 \<rparr> \<rparr>"
proof -
  let ?s0 = "initialState echoEnv (loadPreferences echoEnv ''u1'') ''u1'' ''s1'' ''explain closures'' None"
  have c: "st_context ?s0 = emptyContext \<lparr> conversation_history := Some (HistoryArray []),
       ctx_available_transitions := Some [], user_input := Some ''explain closures'' \<rparr>"
    by (simp add: echo_preferences initialState_no_context emptyContext_def)
  have p: "user_preferences (st_context ?s0) = None" by (simp add: c emptyContext_def)
  have ex: "executeNode echoEnv ConceptExplainer (?s0 \<lparr> st_current_node := ConceptExplainer \<rparr>) =
      (Inr (conceptExplainerPrompt ''beginner'' ''JavaScript'' ''hands-on'' (Some ''explain closures'')),
       [ChatCompletion \<lparr> model = ''gpt-3.5-turbo'',
          content = conceptExplainerPrompt ''beginner'' ''JavaScript'' ''hands-on'' (Some ''explain closures''),
          max_tokens = 600, temperature = 7 / 10 \<rparr>])"
    unfolding echo_explainer using p by (simp add: no_preferences) (simp add: c)
  have h: "conversation_history (st_context ?s0) = Some (HistoryArray [])"
    by (simp add: c)
  from executeGraph_turn [OF quizFollowUp_no_context refl refl, of echoEnv "''u1''" "''s1''"
      "''explain closures''" "[]" _ _, unfolded route_explain, OF h ex]
  show ?thesis
    by (simp add: c savedContext_def initialState_metadata echoEnv_fields)
qed


lemma second_context:
  "st_context (initialState echoEnv None ''u1'' ''s1'' ''review my code'' (Some savedContext)) =
     savedContext"
  by (simp add: initialState_def spread_def later_def emptyContext_def savedContext_def)

text \<open>
  C6 at the second turn of a session.  The first turn, \<open>explain closures\<close>, leaves its
  context in the session with the key \<open>user_input\<close>.  The second turn, \<open>review my code\<close>,
  is routed by its own input to code-feedback, but the context of its state is spread
  over the new \<open>user_input\<close>, and the executor is sent the request of the first turn.
\<close>

theorem second_turn_reads_first_input:
  "map_sum id session_context (fst (executeGraph echoEnv ''u1'' ''s1'' ''explain closures'' None)) =
     Inr savedContext \<and>
   user_input savedContext = Some ''explain closures'' \<and>
   user_input (st_context (initialState echoEnv (loadPreferences echoEnv ''u1'') ''u1'' ''s1''
       ''review my code'' (Some savedContext))) = Some ''explain closures'' \<and>
   map_sum id current_node (fst (executeGraph echoEnv ''u1'' ''s1'' ''review my code'' (Some savedContext))) =
     Inr CodeFeedback \<and>
   map_sum id response (fst (executeGraph echoEnv ''u1'' ''s1'' ''review my code'' (Some savedContext))) =
     Inr (codeFeedbackPrompt ''beginner'' ''JavaScript'' ''hands-on'' (Some ''explain closures'') None)"
proof -
  let ?s0 = "initialState echoEnv (loadPreferences echoEnv ''u1'') ''u1'' ''s1'' ''review my code''
               (Some savedContext)"
  have c: "st_context ?s0 = savedContext"
    by (simp add: echo_preferences second_context)
  have f: "user_preferences savedContext = None" "user_input savedContext = Some ''explain closures''"
    "last_code_snippet savedContext = None" "quizContext savedContext = None"
    by (simp_all add: savedContext_def emptyContext_def)
  have ex: "executeNode echoEnv CodeFeedback (?s0 \<lparr> st_current_node := CodeFeedback \<rparr>) =
      (Inr (codeFeedbackPrompt ''beginner'' ''JavaScript'' ''hands-on'' (Some ''explain closures'') None),
       [ChatCompletion \<lparr> model = ''gpt-3.5-turbo'',
          content = codeFeedbackPrompt ''beginner'' ''JavaScript'' ''hands-on'' (Some ''explain closures'') None,
          max_tokens = 500, temperature = 7 / 10 \<rparr>])"
    unfolding echo_feedback by (simp add: c f no_preferences)
  have h: "conversation_history (st_context ?s0) = Some (HistoryArray
           [\<lparr> h_timestamp = exampleClock 1, h_user_input = ''explain closures'',
              h_node = ''concept-explainer'',
              h_response = conceptExplainerPrompt ''beginner'' ''JavaScript'' ''hands-on''
                             (Some ''explain closures'') \<rparr>])"
    unfolding c by (simp add: savedContext_def)
  note t = executeGraph_turn [OF quizFollowUp_no_quiz [OF f(4)] refl refl, of echoEnv "''u1''" "''s1''"
      "''review my code''" _ _ _, unfolded route_review, OF h ex]
  show ?thesis
    by (simp add: first_turn t c f)
qed


lemma null_history_context:
  "st_context (initialState env prefs userId sessionId userInput (Some nullHistory)) =
     emptyContext \<lparr> user_preferences := prefs, conversation_history := Some HistoryNull,
       ctx_available_transitions := Some [], user_input := Some userInput \<rparr>"
  by (simp add: initialState_def spread_def later_def emptyContext_def nullHistory_def)

lemma null_history_throws:
  "fst (executeGraph_try echoEnv ''u1'' ''s1'' ''explain closures'' (Some nullHistory)) = Inl TypeError"
proof -
  let ?s0 = "initialState echoEnv (loadPreferences echoEnv ''u1'') ''u1'' ''s1'' ''explain closures''
               (Some nullHistory)"
  have q: "quizContext nullHistory = None" by (simp add: nullHistory_def emptyContext_def)
  have h: "conversation_history (st_context ?s0) = Some HistoryNull"
    unfolding null_history_context by simp
  obtain reply calls where ex:
    "executeNode echoEnv ConceptExplainer (?s0 \<lparr> st_current_node := ConceptExplainer \<rparr>) = (Inr reply, calls)"
    unfolding echo_explainer by blast
  from executeGraph_push_fails [OF quizFollowUp_no_quiz [OF q] refl refl, of echoEnv "''u1''" "''s1''"
      "''explain closures''" _ _, unfolded route_explain, OF h ex]
  show ?thesis by simp
qed

text \<open>
  A context whose history is \<open>null\<close>: appending the new entry throws, and the turn is
  answered with the general reply.
\<close>

theorem executeGraph_contains_exceptions_witness:
  "fst (executeGraph_try echoEnv ''u1'' ''s1'' ''explain closures'' (Some nullHistory)) = Inl TypeError \<and>
   (\<exists>r. fst (executeGraph echoEnv ''u1'' ''s1'' ''explain closures'' (Some nullHistory)) = Inr r \<and>
        available_transitions r = allNodes \<and> response r = fallbackResponse \<and>
        current_node r = ConceptExplainer)"
  using executeGraph_contains_exceptions [of echoEnv "''u1''" "''s1''" "''explain closures''"
      "Some nullHistory"] null_history_throws
  by auto

lemma fallback_preferences:
  "user_preferences ctx = Some fallbackPreferences \<Longrightarrow> preferredDifficulty ctx = ''beginner''"
  "user_preferences ctx = Some fallbackPreferences \<Longrightarrow>
     preferredLanguages ctx = ''javascript, react, typescript''"
  "user_preferences ctx = Some fallbackPreferences \<Longrightarrow> preferredStyle ctx = ''hands-on''"
  by (simp_all add: preferredDifficulty_def preferredLanguages_def preferredStyle_def
      or_default_def or_else_def fallbackPreferences_def)

lemma throwing_feedback:
  "user_input (st_context state) = Some u \<Longrightarrow>
   fst (executeNode throwingEnv CodeFeedback state) =
     Inr (codeFeedbackFallback (preferredLanguages (st_context state))
            (preferredDifficulty (st_context state)) u)"
  by (simp add: executeNode_def executeCodeFeedbackNode_def Let_def throwingEnv_fields)

lemma canned_differs: "codeFeedbackFallback l d u \<noteq> fallbackResponse"
  by (simp add: codeFeedbackFallback_def fallbackResponse_def)

text \<open>
  C8 as stated has every exception raised during executor dispatch or persistence end in
  the general reply.  With a completion call and a session update that both throw, the
  turn \<open>review my code\<close> is answered by the canned reply of the code-feedback executor,
  tagged code-feedback.
\<close>

theorem completion_failure_counterexample:
  "complete throwingEnv = (\<lambda>r. CompletionThrows) \<and>
   updateChatSession throwingEnv = (\<lambda>i u. WriteThrows) \<and>
   map_sum id current_node (fst (executeGraph throwingEnv ''u1'' ''s1'' ''review my code'' None)) =
     Inr CodeFeedback \<and>
   map_sum id response (fst (executeGraph throwingEnv ''u1'' ''s1'' ''review my code'' None)) =
     Inr (codeFeedbackFallback ''javascript, react, typescript'' ''beginner'' ''review my code'') \<and>
   codeFeedbackFallback ''javascript, react, typescript'' ''beginner'' ''review my code'' \<noteq>
     fallbackResponse"
proof -
  let ?s0 = "initialState throwingEnv (loadPreferences throwingEnv ''u1'') ''u1'' ''s1''
               ''review my code'' None"
  have c: "st_context ?s0 = emptyContext \<lparr> user_preferences := Some fallbackPreferences,
       conversation_history := Some (HistoryArray []),
       ctx_available_transitions := Some [], user_input := Some ''review my code'' \<rparr>"
    by (simp add: throwing_preferences initialState_no_context)
  have p: "user_preferences (st_context ?s0) = Some fallbackPreferences"
    and u: "user_input (st_context ?s0) = Some ''review my code''"
    and h: "conversation_history (st_context ?s0) = Some (HistoryArray [])"
    unfolding c by simp_all
  obtain calls where ex: "executeNode throwingEnv CodeFeedback (?s0 \<lparr> st_current_node := CodeFeedback \<rparr>) =
      (Inr (codeFeedbackFallback ''javascript, react, typescript'' ''beginner'' ''review my code''), calls)"
    using throwing_feedback [of "?s0 \<lparr> st_current_node := CodeFeedback \<rparr>" "''review my code''"] p u
    by (cases "executeNode throwingEnv CodeFeedback (?s0 \<lparr> st_current_node := CodeFeedback \<rparr>)")
       (simp add: fallback_preferences)
  note t = executeGraph_turn [OF quizFollowUp_no_context refl refl, of throwingEnv "''u1''" "''s1''"
      "''review my code''" _ _ _, unfolded route_review, OF h ex]
  have e: "complete throwingEnv = (\<lambda>r. CompletionThrows)"
    "updateChatSession throwingEnv = (\<lambda>i u. WriteThrows)"
    by (simp_all add: throwingEnv_def)
  show ?thesis by (simp add: t e canned_differs)
qed

text \<open>
  C10 at the same turn.  The follow-up on the question without options makes no update and
  appends nothing, but the context it returns is a new one with the input and an empty
  history, not the context of the caller.  For a question that has options and for a
  number out of range, \<open>executeGraph_followUp_reply\<close> and
  \<open>executeGraph_followUp_out_of_range\<close> give the caller's context, the iteration count 0
  and the two calls of the turn, the user lookup and the clock.
\<close>

theorem follow_up_context_replaced:
  "executeGraph env ''u1'' ''s1'' ''what about question 1'' (Some (withQuiz failedQuiz)) =
     (Inr (fallbackResult env ''what about question 1'' 0), [GetUserById ''u1'', ReadClock]) \<and>
   session_context (fallbackResult env ''what about question 1'' 0) =
     emptyContext \<lparr> user_input := Some ''what about question 1'',
                     conversation_history := Some (HistoryArray []) \<rparr> \<and>
   session_context (fallbackResult env ''what about question 1'' 0) \<noteq> withQuiz failedQuiz"
  using executeGraph_followUp_no_options [OF followUp_question_1 failedQuiz_first, of env "''u1''" "''s1''"]
  by (simp add: questionOnly_def fallbackResult_def withQuiz_def emptyContext_def)

subsection \<open>A submission to a quiz whose generation failed\<close>


subsection \<open>The upgrade flow\<close>






end
